theory Spec2Isabelle
  imports Complex_Main
begin

section \<open>Data model\<close>

text \<open>
  Prices, scores and dollar amounts are Python floats in the source; they are modelled by
  the real numbers they approximate.  Where a float can make the program raise (the
  position sizer), its class is modelled too: see the sizer's floats below.
  A bar's \<open>time\<close> is an opaque stamp: the detectors only compare it for
  equality, and the two filters that read a time of day get it through the conversion
  functions of a \<open>clock\<close> (the datetime library is not part of the repository).
  Directions and kinds are the strings the source uses.
\<close>

datatype py_error = ZeroDivisionError | ValueError | OverflowError

record bar =
  bar_time :: nat
  bar_open :: real
  bar_high :: real
  bar_low :: real
  bar_close :: real
  bar_volume :: real

record swing =
  swing_index :: nat
  swing_time :: nat
  swing_price :: real
  swing_type :: string

text \<open>
  The field \<open>sweep_extreme\<close> is the key \<open>sweep_high\<close> of a buyside sweep and the key
  \<open>sweep_low\<close> of a sellside sweep: each dict holds exactly the one its kind reads.
\<close>

record sweep =
  sweep_type :: string
  sweep_swing_level :: real
  sweep_extreme :: real
  sweep_close :: real
  sweep_time :: nat
  sweep_direction :: string

record fvg =
  fvg_type :: string
  fvg_top :: real
  fvg_bottom :: real
  fvg_size :: real
  fvg_start_index :: nat
  fvg_start_time :: nat
  fvg_direction :: string
  fvg_filled :: bool
  fvg_age :: int

record delivery =
  delivery_fvg :: fvg
  delivery_confirmed :: bool
  delivery_time :: nat
  delivery_direction :: string

record ifvg =
  ifvg_type :: string
  ifvg_top :: real
  ifvg_bottom :: real
  ifvg_inversion_close :: real
  ifvg_inversion_time :: nat
  ifvg_direction :: string

record cisd =
  cisd_level :: real
  cisd_direction :: string
  cisd_first_candle :: bar
  cisd_current_close :: real
  cisd_time :: nat

record confirmation_state =
  cs_sweep :: "sweep option"
  cs_htf_fvg :: "delivery option"
  cs_ifvg :: "ifvg option"
  cs_cisd :: "cisd option"

record filter_scores =
  fs_time_score :: real
  fs_volatility_score :: real
  fs_structure_score :: real
  fs_sweep_quality :: real
  fs_overall_score :: real
  fs_vix :: real
  fs_filters_enabled :: bool

record signal =
  signal_time :: nat
  signal_direction :: string
  signal_entry :: real
  signal_stop_loss :: real
  signal_target :: real
  signal_risk :: real
  signal_reward :: real
  signal_risk_reward_ratio :: real
  signal_confirmations :: confirmation_state
  signal_filter_scores :: "filter_scores option"

record position_size =
  ps_symbol :: string
  ps_contracts :: int
  ps_entry :: real
  ps_stop :: real
  ps_risk_points :: real
  ps_risk_per_contract :: real
  ps_total_risk_dollars :: real
  ps_risk_percentage :: real
  ps_tick_value :: real

record trade =
  trade_time :: nat
  trade_direction :: string
  trade_entry :: real
  trade_exit :: real
  trade_pnl :: real
  trade_result :: string
  trade_contracts :: int
  trade_bars_held :: nat

section \<open>Position sizer (src/risk/position\_sizing.py)\<close>

record position_sizer =
  account_size :: real
  risk_per_trade :: real
  max_risk_dollars :: real
  mnq_brackets :: "((real \<times> real) \<times> int) list"

text \<open>\<open>PositionSizer.__init__\<close>; the bracket table keeps the dict's insertion order.\<close>

definition new_position_sizer :: "real \<Rightarrow> real \<Rightarrow> position_sizer" where
  "new_position_sizer acct rpt =
     \<lparr>account_size = acct, risk_per_trade = rpt, max_risk_dollars = acct * rpt,
      mnq_brackets = [((20, 24), 5), ((25, 30), 4), ((31, 40), 3), ((41, 60), 2), ((60, 120), 1)]\<rparr>"

text \<open>
  The sizer's floats.  Python floats are IEEE doubles: an operation never raises on
  overflow, it yields an infinity, and a division raises only on a zero divisor; \<open>int()\<close>
  raises \<open>OverflowError\<close> on an infinity and \<open>ValueError\<close> on a NaN.  A float of the
  sizer is modelled by the real number it approximates together with the class the
  program's float has; the class decides where the program raises.  Rounding inside the
  range of doubles is not modelled: the real value is kept exact.  A result of finite
  non-zero operands whose magnitude is at least \<open>2^1024 - 2^970\<close> rounds to an infinity,
  one whose magnitude is at most \<open>2^-1075\<close> rounds to zero.
\<close>

datatype float_class = Zero | Finite | Infinite | NaN

type_synonym pyfloat = "real \<times> float_class"

definition rounds_to_inf :: "real \<Rightarrow> bool" where
  "rounds_to_inf x = (2 ^ 1024 - 2 ^ 970 \<le> \<bar>x\<bar>)"

definition rounds_to_zero :: "real \<Rightarrow> bool" where
  "rounds_to_zero x = (\<bar>x\<bar> \<le> 1 / 2 ^ 1075)"

text \<open>The class of the result of an operation on finite non-zero operands.\<close>

definition result_class :: "real \<Rightarrow> float_class" where
  "result_class x =
     (if rounds_to_inf x then Infinite else if rounds_to_zero x then Zero else Finite)"

text \<open>A float the caller passes in or the sizer holds: a finite double.\<close>

definition float_of :: "real \<Rightarrow> pyfloat" where
  "float_of x = (x, if x = 0 then Zero else Finite)"

text \<open>
  A float the constructor computed: \<open>max_risk_dollars = account_size * risk_per_trade\<close> is
  an infinity when the product of its finite operands leaves the range of doubles.
\<close>

definition stored_float :: "real \<Rightarrow> pyfloat" where
  "stored_float x = (x, result_class x)"

text \<open>The difference of two finite doubles: it is zero only when they are equal.\<close>

definition py_sub :: "real \<Rightarrow> real \<Rightarrow> pyfloat" where
  "py_sub a b =
     (a - b, if a = b then Zero else if rounds_to_inf (a - b) then Infinite else Finite)"

definition py_abs :: "pyfloat \<Rightarrow> pyfloat" where
  "py_abs x = (\<bar>fst x\<bar>, snd x)"

definition py_mul :: "pyfloat \<Rightarrow> pyfloat \<Rightarrow> pyfloat" where
  "py_mul x y =
     (fst x * fst y,
      if snd x = NaN \<or> snd y = NaN then NaN
      else if snd x = Infinite then (if snd y = Zero then NaN else Infinite)
      else if snd y = Infinite then (if snd x = Zero then NaN else Infinite)
      else if snd x = Zero \<or> snd y = Zero then Zero
      else result_class (fst x * fst y))"

text \<open>Float division raises on a zero divisor, whatever the dividend.\<close>

definition py_div :: "pyfloat \<Rightarrow> pyfloat \<Rightarrow> py_error + pyfloat" where
  "py_div x y =
     (if snd y = Zero then Inl ZeroDivisionError
      else Inr (fst x / fst y,
                if snd x = NaN \<or> snd y = NaN then NaN
                else if snd x = Infinite then (if snd y = Infinite then NaN else Infinite)
                else if snd y = Infinite then Zero
                else if snd x = Zero then Zero
                else result_class (fst x / fst y)))"

text \<open>Python's \<open>int(x)\<close> on a float truncates towards zero.\<close>

definition py_int :: "pyfloat \<Rightarrow> py_error + int" where
  "py_int x =
     (case snd x of
        NaN \<Rightarrow> Inl ValueError
      | Infinite \<Rightarrow> Inl OverflowError
      | Zero \<Rightarrow> Inr 0
      | Finite \<Rightarrow> Inr (if 0 \<le> fst x then \<lfloor>fst x\<rfloor> else \<lceil>fst x\<rceil>))"

fun bracket_lookup :: "((real \<times> real) \<times> int) list \<Rightarrow> real \<Rightarrow> int" where
  "bracket_lookup [] risk_points = 1"
| "bracket_lookup (((min_points, max_points), contracts) # rest) risk_points =
     (if min_points \<le> risk_points \<and> risk_points \<le> max_points then contracts
      else bracket_lookup rest risk_points)"

definition get_mnq_contracts :: "position_sizer \<Rightarrow> real \<Rightarrow> int" where
  "get_mnq_contracts self risk_points = bracket_lookup (mnq_brackets self) risk_points"

text \<open>
  \<open>calculate_position_size\<close>, line by line.  The dict it returns holds the real values of
  its floats.
\<close>

definition calculate_position_size ::
  "position_sizer \<Rightarrow> string \<Rightarrow> real \<Rightarrow> real \<Rightarrow> real \<Rightarrow> real \<Rightarrow> py_error + position_size" where
  "calculate_position_size self symbol entry stop tick_value min_tick =
     (let risk_points = py_abs (py_sub entry stop) in
      case py_div risk_points (float_of min_tick) of
        Inl e \<Rightarrow> Inl e
      | Inr risk_ticks \<Rightarrow>
         (let risk_per_contract = py_mul risk_ticks (float_of tick_value) in
          case py_div (stored_float (max_risk_dollars self)) risk_per_contract of
            Inl e \<Rightarrow> Inl e
          | Inr q \<Rightarrow>
             (case py_int q of
                Inl e \<Rightarrow> Inl e
              | Inr contracts_by_risk \<Rightarrow>
                 (let contracts = (if symbol = ''MNQ''
                                   then min contracts_by_risk
                                          (get_mnq_contracts self (fst risk_points))
                                   else contracts_by_risk);
                      contracts = max 1 contracts;
                      actual_risk_dollars =
                        py_mul (float_of (real_of_int contracts)) risk_per_contract in
                  case py_div actual_risk_dollars (float_of (account_size self)) of
                    Inl e \<Rightarrow> Inl e
                  | Inr share \<Rightarrow>
                      Inr \<lparr>ps_symbol = symbol, ps_contracts = contracts, ps_entry = entry,
                           ps_stop = stop, ps_risk_points = fst risk_points,
                           ps_risk_per_contract = fst risk_per_contract,
                           ps_total_risk_dollars = fst actual_risk_dollars,
                           ps_risk_percentage = fst (py_mul share (float_of 100)),
                           ps_tick_value = tick_value\<rparr>))))"

definition validate_position :: "position_sizer \<Rightarrow> position_size \<Rightarrow> bool" where
  "validate_position self p =
     (if ps_total_risk_dollars p > max_risk_dollars self * 1.1 then False
      else if ps_contracts p < 1 then False
      else True)"

definition update_account_size :: "position_sizer \<Rightarrow> real \<Rightarrow> position_sizer" where
  "update_account_size self new_size =
     self\<lparr>account_size := new_size, max_risk_dollars := new_size * risk_per_trade self\<rparr>"

section \<open>Trade simulation (backtest\_main.py)\<close>

text \<open>\<open>list.index\<close>: the position of the first equal element.\<close>

fun py_index :: "'a list \<Rightarrow> 'a \<Rightarrow> nat option" where
  "py_index [] x = None"
| "py_index (y # ys) x = (if y = x then Some 0 else map_option Suc (py_index ys x))"

text \<open>The two per-bar tests of \<open>simulate_trade\<close>; any direction but SHORT is taken as LONG.\<close>

definition stop_hit :: "signal \<Rightarrow> bar \<Rightarrow> bool" where
  "stop_hit sg b =
     (if signal_direction sg = ''SHORT'' then bar_high b \<ge> signal_stop_loss sg
      else bar_low b \<le> signal_stop_loss sg)"

definition target_hit :: "signal \<Rightarrow> bar \<Rightarrow> bool" where
  "target_hit sg b =
     (if signal_direction sg = ''SHORT'' then bar_low b \<le> signal_target sg
      else bar_high b \<ge> signal_target sg)"

definition close_trade ::
  "signal \<Rightarrow> position_size \<Rightarrow> bar list \<Rightarrow> bar \<Rightarrow> real \<Rightarrow> real \<Rightarrow> string \<Rightarrow> py_error + trade" where
  "close_trade sg p future_bars b exit_price pnl res =
     (case py_index future_bars b of
        None \<Rightarrow> Inl ValueError
      | Some i \<Rightarrow>
          Inr \<lparr>trade_time = signal_time sg, trade_direction = signal_direction sg,
               trade_entry = signal_entry sg, trade_exit = exit_price, trade_pnl = pnl,
               trade_result = res, trade_contracts = ps_contracts p,
               trade_bars_held = i + 1\<rparr>)"

definition reward_dollars :: "signal \<Rightarrow> position_size \<Rightarrow> real" where
  "reward_dollars sg p =
     (if signal_direction sg = ''SHORT''
      then real_of_int (ps_contracts p) * (signal_entry sg - signal_target sg) * ps_tick_value p
      else real_of_int (ps_contracts p) * (signal_target sg - signal_entry sg) * ps_tick_value p)"

text \<open>The \<open>for\<close> loop; \<open>None\<close> when it falls through.\<close>

fun scan_bars :: "signal \<Rightarrow> position_size \<Rightarrow> bar list \<Rightarrow> bar list \<Rightarrow> (py_error + trade) option" where
  "scan_bars sg p future_bars [] = None"
| "scan_bars sg p future_bars (b # bs) =
     (if stop_hit sg b
      then Some (close_trade sg p future_bars b (signal_stop_loss sg)
                   (- ps_total_risk_dollars p) ''LOSS'')
      else if target_hit sg b
      then Some (close_trade sg p future_bars b (signal_target sg) (reward_dollars sg p) ''WIN'')
      else scan_bars sg p future_bars bs)"

definition simulate_trade :: "signal \<Rightarrow> position_size \<Rightarrow> bar list \<Rightarrow> py_error + trade" where
  "simulate_trade sg p future_bars =
     (let max_bars_to_check = min 100 (length future_bars) in
      case scan_bars sg p future_bars (take max_bars_to_check future_bars) of
        Some r \<Rightarrow> r
      | None \<Rightarrow>
          Inr \<lparr>trade_time = signal_time sg, trade_direction = signal_direction sg,
               trade_entry = signal_entry sg, trade_exit = signal_entry sg, trade_pnl = 0,
               trade_result = ''BREAKEVEN'', trade_contracts = ps_contracts p,
               trade_bars_held = max_bars_to_check\<rparr>)"

section \<open>Confirmation 1: liquidity sweep (src/strategy/confirmation1\_sweep.py)\<close>

record sweep_detector =
  min_swing_candles :: nat
  sweep_buffer_ticks :: real
  swing_highs :: "swing list"
  swing_lows :: "swing list"

definition new_sweep_detector :: "nat \<Rightarrow> real \<Rightarrow> sweep_detector" where
  "new_sweep_detector m buf =
     \<lparr>min_swing_candles = m, sweep_buffer_ticks = buf, swing_highs = [], swing_lows = []\<rparr>"

text \<open>
  The two inner loops of \<open>identify_swings\<close> for the candidate index \<open>i\<close>: no bar of the
  \<open>m\<close> to its left and of the \<open>m\<close> to its right may reach its high (its low).
\<close>

definition is_swing_high :: "nat \<Rightarrow> bar list \<Rightarrow> nat \<Rightarrow> bool" where
  "is_swing_high m bars i =
     (list_all (\<lambda>j. \<not> bar_high (bars ! j) \<ge> bar_high (bars ! i)) [i - m ..< i] \<and>
      list_all (\<lambda>j. \<not> bar_high (bars ! j) \<ge> bar_high (bars ! i)) [i + 1 ..< i + m + 1])"

definition is_swing_low :: "nat \<Rightarrow> bar list \<Rightarrow> nat \<Rightarrow> bool" where
  "is_swing_low m bars i =
     (list_all (\<lambda>j. \<not> bar_low (bars ! j) \<le> bar_low (bars ! i)) [i - m ..< i] \<and>
      list_all (\<lambda>j. \<not> bar_low (bars ! j) \<le> bar_low (bars ! i)) [i + 1 ..< i + m + 1])"

definition swing_high_at :: "bar list \<Rightarrow> nat \<Rightarrow> swing" where
  "swing_high_at bars i =
     \<lparr>swing_index = i, swing_time = bar_time (bars ! i), swing_price = bar_high (bars ! i),
      swing_type = ''swing_high''\<rparr>"

definition swing_low_at :: "bar list \<Rightarrow> nat \<Rightarrow> swing" where
  "swing_low_at bars i =
     \<lparr>swing_index = i, swing_time = bar_time (bars ! i), swing_price = bar_low (bars ! i),
      swing_type = ''swing_low''\<rparr>"

text \<open>
  \<open>identify_swings\<close> with its default \<open>lookback = 20\<close>: with fewer bars it returns two
  empty lists and leaves the detector as it is; otherwise it scans the indices
  \<open>range(m, len - m)\<close> and stores both lists in the detector.
\<close>

definition identify_swings :: "sweep_detector \<Rightarrow> bar list \<Rightarrow> sweep_detector" where
  "identify_swings self bars =
     (if length bars < 20 then self
      else let m = min_swing_candles self; idx = [m ..< length bars - m] in
        self\<lparr>swing_highs := map (swing_high_at bars) (filter (is_swing_high m bars) idx),
             swing_lows := map (swing_low_at bars) (filter (is_swing_low m bars) idx)\<rparr>)"

definition buyside_sweep :: "swing \<Rightarrow> bar \<Rightarrow> sweep" where
  "buyside_sweep sh current_bar =
     \<lparr>sweep_type = ''buyside_sweep'', sweep_swing_level = swing_price sh,
      sweep_extreme = bar_high current_bar,
      sweep_close = bar_close current_bar, sweep_time = bar_time current_bar,
      sweep_direction = ''SHORT''\<rparr>"

definition sellside_sweep :: "swing \<Rightarrow> bar \<Rightarrow> sweep" where
  "sellside_sweep sl current_bar =
     \<lparr>sweep_type = ''sellside_sweep'', sweep_swing_level = swing_price sl,
      sweep_extreme = bar_low current_bar,
      sweep_close = bar_close current_bar, sweep_time = bar_time current_bar,
      sweep_direction = ''LONG''\<rparr>"

text \<open>The buyside and the sellside test of \<open>detect_sweep\<close> against the latest swing.\<close>

definition buyside_condition :: "sweep_detector \<Rightarrow> bar \<Rightarrow> real \<Rightarrow> bool" where
  "buyside_condition self current_bar min_tick =
     (swing_highs self \<noteq> [] \<and>
      bar_high current_bar \<ge> swing_price (last (swing_highs self)) + sweep_buffer_ticks self * min_tick \<and>
      bar_close current_bar < swing_price (last (swing_highs self)))"

definition sellside_condition :: "sweep_detector \<Rightarrow> bar \<Rightarrow> real \<Rightarrow> bool" where
  "sellside_condition self current_bar min_tick =
     (swing_lows self \<noteq> [] \<and>
      bar_low current_bar \<le> swing_price (last (swing_lows self)) - sweep_buffer_ticks self * min_tick \<and>
      bar_close current_bar > swing_price (last (swing_lows self)))"

text \<open>
  \<open>detect_sweep\<close> returns the sweep, if any, and the detector: the swings are identified
  only while both lists are empty, and kept afterwards.
\<close>

definition detect_sweep ::
  "sweep_detector \<Rightarrow> bar \<Rightarrow> bar list \<Rightarrow> real \<Rightarrow> sweep option \<times> sweep_detector" where
  "detect_sweep self0 current_bar previous_bars min_tick =
     (let self = (if swing_highs self0 = [] \<and> swing_lows self0 = []
                  then identify_swings self0 previous_bars else self0) in
      if swing_highs self = [] \<and> swing_lows self = [] then (None, self)
      else if buyside_condition self current_bar min_tick
      then (Some (buyside_sweep (last (swing_highs self)) current_bar), self)
      else if sellside_condition self current_bar min_tick
      then (Some (sellside_sweep (last (swing_lows self)) current_bar), self)
      else (None, self))"

text \<open>\<open>xs[-n:]\<close> for a positive \<open>n\<close>.\<close>

definition last_n :: "nat \<Rightarrow> 'a list \<Rightarrow> 'a list" where
  "last_n n xs = drop (length xs - n) xs"

definition get_liquidity_levels :: "sweep_detector \<Rightarrow> real list \<times> real list" where
  "get_liquidity_levels self =
     (map swing_price (last_n 5 (swing_highs self)), map swing_price (last_n 5 (swing_lows self)))"

section \<open>Confirmation 2: higher-timeframe FVG (src/strategy/confirmation2\_htf\_fvg.py)\<close>

record htf_fvg_detector =
  min_fvg_size_ticks :: real
  max_age :: int
  active_fvgs :: "fvg list"

definition new_htf_fvg_detector :: "real \<Rightarrow> int \<Rightarrow> htf_fvg_detector" where
  "new_htf_fvg_detector sz age = \<lparr>min_fvg_size_ticks = sz, max_age = age, active_fvgs = []\<rparr>"

text \<open>The body of the loop of \<open>identify_fvgs\<close> at index \<open>i\<close>: the bearish test first.\<close>

definition fvgs_at :: "real \<Rightarrow> real \<Rightarrow> bar list \<Rightarrow> nat \<Rightarrow> fvg list" where
  "fvgs_at size_ticks min_tick bars i =
     (let candle1 = bars ! i; candle2 = bars ! (i + 1); candle3 = bars ! (i + 2);
          bearish_gap_top = bar_high candle1; bearish_gap_bottom = bar_low candle3;
          bearish_gap_size = bearish_gap_top - bearish_gap_bottom;
          bullish_gap_bottom = bar_low candle1; bullish_gap_top = bar_high candle3;
          bullish_gap_size = bullish_gap_top - bullish_gap_bottom in
      (if bar_high candle2 < bearish_gap_top \<and> bar_low candle2 > bearish_gap_bottom \<and>
          bearish_gap_size \<ge> size_ticks * min_tick
       then [\<lparr>fvg_type = ''bearish'', fvg_top = bearish_gap_top, fvg_bottom = bearish_gap_bottom,
              fvg_size = bearish_gap_size, fvg_start_index = i, fvg_start_time = bar_time candle1,
              fvg_direction = ''SHORT'', fvg_filled = False, fvg_age = 0\<rparr>]
       else []) @
      (if bar_low candle2 > bullish_gap_bottom \<and> bar_high candle2 < bullish_gap_top \<and>
          bullish_gap_size \<ge> size_ticks * min_tick
       then [\<lparr>fvg_type = ''bullish'', fvg_top = bullish_gap_top, fvg_bottom = bullish_gap_bottom,
              fvg_size = bullish_gap_size, fvg_start_index = i, fvg_start_time = bar_time candle1,
              fvg_direction = ''LONG'', fvg_filled = False, fvg_age = 0\<rparr>]
       else []))"

definition identify_fvgs :: "htf_fvg_detector \<Rightarrow> bar list \<Rightarrow> real \<Rightarrow> fvg list" where
  "identify_fvgs self bars min_tick =
     (if length bars < 3 then []
      else concat (map (fvgs_at (min_fvg_size_ticks self) min_tick bars) [0 ..< length bars - 2]))"

definition update_fvgs :: "htf_fvg_detector \<Rightarrow> bar list \<Rightarrow> real \<Rightarrow> htf_fvg_detector" where
  "update_fvgs self bars min_tick =
     self\<lparr>active_fvgs := filter (\<lambda>f. \<not> fvg_filled f) (identify_fvgs self (last_n 50 bars) min_tick)\<rparr>"

text \<open>
  One pass of the loop body of \<open>check_delivery\<close> over an FVG: the FVG as the pass leaves
  it, and the delivery when the pass returns one.
\<close>

definition fvg_step :: "int \<Rightarrow> bar \<Rightarrow> fvg \<Rightarrow> fvg \<times> delivery option" where
  "fvg_step age_limit current_bar f0 =
     (if fvg_filled f0 then (f0, None)
      else let f = f0\<lparr>fvg_age := fvg_age f0 + 1\<rparr> in
        if fvg_age f > age_limit then (f\<lparr>fvg_filled := True\<rparr>, None)
        else if fvg_type f = ''bearish'' then
          (if bar_high current_bar \<ge> fvg_bottom f then
             (if bar_close current_bar < fvg_bottom f
              then (f, Some \<lparr>delivery_fvg = f, delivery_confirmed = True,
                             delivery_time = bar_time current_bar, delivery_direction = ''SHORT''\<rparr>)
              else if bar_close current_bar > fvg_top f then (f\<lparr>fvg_filled := True\<rparr>, None)
              else (f, None))
           else (f, None))
        else if fvg_type f = ''bullish'' then
          (if bar_low current_bar \<le> fvg_top f then
             (if bar_close current_bar > fvg_top f
              then (f, Some \<lparr>delivery_fvg = f, delivery_confirmed = True,
                             delivery_time = bar_time current_bar, delivery_direction = ''LONG''\<rparr>)
              else if bar_close current_bar < fvg_bottom f then (f\<lparr>fvg_filled := True\<rparr>, None)
              else (f, None))
           else (f, None))
        else (f, None))"

text \<open>
  \<open>check_delivery\<close> mutates the FVGs of the list it is given and returns at the first
  delivery: the result and the list as the call leaves it.
\<close>

fun check_delivery :: "int \<Rightarrow> fvg list \<Rightarrow> bar \<Rightarrow> delivery option \<times> fvg list" where
  "check_delivery age_limit [] current_bar = (None, [])"
| "check_delivery age_limit (f # fs) current_bar =
     (case fvg_step age_limit current_bar f of
        (f', Some d) \<Rightarrow> (Some d, f' # fs)
      | (f', None) \<Rightarrow>
          (case check_delivery age_limit fs current_bar of (r, fs') \<Rightarrow> (r, f' # fs')))"

section \<open>Confirmation 3: iFVG inversion (src/strategy/confirmation3\_ifvg.py)\<close>

text \<open>The detector is built with \<open>min_fvg_size_ticks = 1\<close>; the loop runs for \<open>i = 0\<close> only.\<close>

definition detect_ifvg_inversion :: "real \<Rightarrow> bar list \<Rightarrow> string \<Rightarrow> real \<Rightarrow> ifvg option" where
  "detect_ifvg_inversion size_ticks bars direction min_tick =
     (if length bars < 4 then None
      else let recent = last_n 4 bars;
               c1 = recent ! 0; c2 = recent ! 1; c3 = recent ! 2; c4 = recent ! 3 in
        if direction = ''SHORT'' then
          (let bullish_gap_bottom = bar_low c1; bullish_gap_top = bar_high c3;
               gap_size = bullish_gap_top - bullish_gap_bottom in
           if bar_low c2 > bullish_gap_bottom \<and> bar_high c2 < bullish_gap_top \<and>
              gap_size \<ge> size_ticks * min_tick \<and> bar_close c4 < bullish_gap_bottom
           then Some \<lparr>ifvg_type = ''bullish_fvg_disrespected'', ifvg_top = bullish_gap_top,
                      ifvg_bottom = bullish_gap_bottom, ifvg_inversion_close = bar_close c4,
                      ifvg_inversion_time = bar_time c4, ifvg_direction = ''SHORT''\<rparr>
           else None)
        else if direction = ''LONG'' then
          (let bearish_gap_top = bar_high c1; bearish_gap_bottom = bar_low c3;
               gap_size = bearish_gap_top - bearish_gap_bottom in
           if bar_high c2 < bearish_gap_top \<and> bar_low c2 > bearish_gap_bottom \<and>
              gap_size \<ge> size_ticks * min_tick \<and> bar_close c4 > bearish_gap_top
           then Some \<lparr>ifvg_type = ''bearish_fvg_disrespected'', ifvg_top = bearish_gap_top,
                      ifvg_bottom = bearish_gap_bottom, ifvg_inversion_close = bar_close c4,
                      ifvg_inversion_time = bar_time c4, ifvg_direction = ''LONG''\<rparr>
           else None)
        else None)"

section \<open>Confirmation 4: CISD (src/strategy/confirmation4\_cisd.py)\<close>

text \<open>The first index whose bar carries the sweep's time.\<close>

fun find_sweep_index :: "bar list \<Rightarrow> nat \<Rightarrow> nat option" where
  "find_sweep_index [] t = None"
| "find_sweep_index (b # bs) t =
     (if bar_time b = t then Some 0 else map_option Suc (find_sweep_index bs t))"

text \<open>
  \<open>range(sweep_index - 1, max(0, sweep_index - 10), -1)\<close>: downwards from the bar before
  the sweep, the bound \<open>max(0, sweep_index - 10)\<close> excluded.
\<close>

definition walk_back_indices :: "nat \<Rightarrow> nat list" where
  "walk_back_indices sweep_index = rev [Suc (sweep_index - 10) ..< sweep_index]"

definition up_close :: "bar \<Rightarrow> bool" where
  "up_close b = (bar_close b > bar_open b)"

definition down_close :: "bar \<Rightarrow> bool" where
  "down_close b = (bar_close b < bar_open b)"

text \<open>The series the loop collects: it appends while the test holds and breaks at the first failure.\<close>

definition candle_series :: "(bar \<Rightarrow> bool) \<Rightarrow> bar list \<Rightarrow> nat \<Rightarrow> bar list" where
  "candle_series same_dir bars sweep_index =
     takeWhile same_dir (map (\<lambda>i. bars ! i) (walk_back_indices sweep_index))"

definition detect_cisd :: "bar list \<Rightarrow> sweep \<Rightarrow> string \<Rightarrow> cisd option" where
  "detect_cisd bars sweep_data direction =
     (if length bars < 10 then None
      else case find_sweep_index bars (sweep_time sweep_data) of
        None \<Rightarrow> None
      | Some sweep_index \<Rightarrow>
          if sweep_index < 5 then None
          else if direction = ''SHORT'' then
            (let up_close_series = candle_series up_close bars sweep_index in
             if up_close_series = [] then None
             else let first_candle = last up_close_series; level = bar_open first_candle;
                      current_bar = last bars in
               if bar_close current_bar < level
               then Some \<lparr>cisd_level = level, cisd_direction = ''SHORT'',
                          cisd_first_candle = first_candle,
                          cisd_current_close = bar_close current_bar,
                          cisd_time = bar_time current_bar\<rparr>
               else None)
          else if direction = ''LONG'' then
            (let down_close_series = candle_series down_close bars sweep_index in
             if down_close_series = [] then None
             else let first_candle = last down_close_series; level = bar_open first_candle;
                      current_bar = last bars in
               if bar_close current_bar > level
               then Some \<lparr>cisd_level = level, cisd_direction = ''LONG'',
                          cisd_first_candle = first_candle,
                          cisd_current_close = bar_close current_bar,
                          cisd_time = bar_time current_bar\<rparr>
               else None)
          else None)"

section \<open>Edge filters (src/filters)\<close>

text \<open>
  What the datetime library makes of a bar's time.  \<open>ny_time\<close> is the reading of
  \<open>TimeFilter.is_optimal_time\<close>: the time of day in New York, in seconds after midnight,
  or the reason why there is none.  \<open>own_time\<close> is the reading of
  \<open>SweepQualityScorer._is_overnight_extreme\<close>: the time of day the stamp itself shows,
  or nothing when the bar is skipped.  Both readings are functions of the stamp, and the
  library's conversions are taken to return.  (A stamp that is a datetime, or a string
  that parses, has both readings; any other stamp has neither.)
\<close>

datatype time_reading = Local_time real | Invalid_time_format | Invalid_time_type

record clock =
  ny_time :: "nat \<Rightarrow> time_reading"
  own_time :: "nat \<Rightarrow> real option"

subsection \<open>Time filter\<close>

definition is_optimal_time :: "clock \<Rightarrow> nat \<Rightarrow> bool \<times> string" where
  "is_optimal_time clk stamp =
     (case ny_time clk stamp of
        Invalid_time_format \<Rightarrow> (False, ''INVALID_TIME_FORMAT'')
      | Invalid_time_type \<Rightarrow> (False, ''INVALID_TIME_TYPE'')
      | Local_time current_time \<Rightarrow>
          if 34200 \<le> current_time \<and> current_time \<le> 36000 then (True, ''OPTIMAL_WINDOW'')
          else if 34200 \<le> current_time \<and> current_time \<le> 39600 then (True, ''ACCEPTABLE_WINDOW'')
          else (False, ''OUTSIDE_HOURS''))"

definition time_quality_multiplier :: "clock \<Rightarrow> nat \<Rightarrow> real" where
  "time_quality_multiplier clk stamp =
     (case is_optimal_time clk stamp of (is_optimal, reason) \<Rightarrow>
        if \<not> is_optimal then 0
        else if reason = ''OPTIMAL_WINDOW'' then 1
        else if reason = ''ACCEPTABLE_WINDOW'' then 0.7
        else 0)"

subsection \<open>Volatility filter\<close>

text \<open>
  One observation of the outside world by \<open>get_current_vix\<close>: the wall clock, in seconds,
  and what the download of the VIX gives (a value, an empty table, or an exception).
\<close>

datatype vix_fetch = Fetched real | Fetch_empty | Fetch_failed

record vix_obs =
  obs_now :: real
  obs_fetch :: vix_fetch

record volatility_filter =
  max_vix :: real
  cache_minutes :: real
  cached_vix :: "real option"
  cache_time :: "real option"

definition new_volatility_filter :: "real \<Rightarrow> volatility_filter" where
  "new_volatility_filter mv =
     \<lparr>max_vix = mv, cache_minutes = 60, cached_vix = None, cache_time = None\<rparr>"

definition get_current_vix :: "volatility_filter \<Rightarrow> vix_obs \<Rightarrow> real option \<times> volatility_filter" where
  "get_current_vix self obs =
     (case (cached_vix self, cache_time self) of
        (Some v, Some t) \<Rightarrow>
          if obs_now obs - t < cache_minutes self * 60 then (Some v, self)
          else (case obs_fetch obs of
                  Fetched current_vix \<Rightarrow>
                    (Some current_vix,
                     self\<lparr>cached_vix := Some current_vix, cache_time := Some (obs_now obs)\<rparr>)
                | Fetch_failed \<Rightarrow> (Some (max_vix self + 1), self)
                | Fetch_empty \<Rightarrow> (None, self))
      | _ \<Rightarrow>
          (case obs_fetch obs of
             Fetched current_vix \<Rightarrow>
               (Some current_vix,
                self\<lparr>cached_vix := Some current_vix, cache_time := Some (obs_now obs)\<rparr>)
           | Fetch_failed \<Rightarrow> (Some (max_vix self + 1), self)
           | Fetch_empty \<Rightarrow> (None, self)))"

definition is_favorable_volatility ::
  "volatility_filter \<Rightarrow> vix_obs \<Rightarrow> (bool \<times> string \<times> real) \<times> volatility_filter" where
  "is_favorable_volatility self obs =
     (case get_current_vix self obs of
        (None, self') \<Rightarrow> ((False, ''VIX_UNAVAILABLE'', 999), self')
      | (Some vix, self') \<Rightarrow>
          if vix \<le> 15 then ((True, ''LOW_VOL_OPTIMAL'', vix), self')
          else if vix \<le> max_vix self' then ((True, ''MODERATE_VOL_ACCEPTABLE'', vix), self')
          else ((False, ''HIGH_VOL_UNFAVORABLE'', vix), self'))"

definition vol_quality_multiplier :: "volatility_filter \<Rightarrow> vix_obs \<Rightarrow> real \<times> volatility_filter" where
  "vol_quality_multiplier self obs =
     (case is_favorable_volatility self obs of
        ((is_favorable, reason, vix), self') \<Rightarrow>
          (if \<not> is_favorable then 0
           else if reason = ''LOW_VOL_OPTIMAL'' then 1
           else if reason = ''MODERATE_VOL_ACCEPTABLE'' then 0.7
           else 0, self'))"

subsection \<open>Structure filter\<close>

text \<open>\<open>max\<close> and \<open>min\<close> of a list; the source calls them on non-empty lists only.\<close>

definition py_max :: "real list \<Rightarrow> real" where
  "py_max xs = foldl max (hd xs) (tl xs)"

definition py_min :: "real list \<Rightarrow> real" where
  "py_min xs = foldl min (hd xs) (tl xs)"

text \<open>\<open>StructureFilter()\<close>: \<open>lookback_bars = 78\<close>, shorts from 0.70 of the range up, longs up to 0.30.\<close>

definition calculate_range_position :: "real \<Rightarrow> bar list \<Rightarrow> real option" where
  "calculate_range_position entry_price bars =
     (if length bars < 78 then None
      else let recent_bars = last_n 78 bars;
               range_high = py_max (map bar_high recent_bars);
               range_low = py_min (map bar_low recent_bars);
               range_size = range_high - range_low in
        if range_size = 0 then Some 0.5
        else Some ((entry_price - range_low) / range_size))"

definition is_at_extreme :: "string \<Rightarrow> real \<Rightarrow> bar list \<Rightarrow> bool \<times> string \<times> real" where
  "is_at_extreme direction entry_price bars =
     (case calculate_range_position entry_price bars of
        None \<Rightarrow> (False, ''INSUFFICIENT_DATA'', 0)
      | Some position \<Rightarrow>
          if direction = ''SHORT'' then
            (if position \<ge> 0.70 then (True, ''SHORT_AT_EXTREME_TOP'', position)
             else (False, ''SHORT_TOO_LOW_IN_RANGE'', position))
          else if direction = ''LONG'' then
            (if position \<le> 0.30 then (True, ''LONG_AT_EXTREME_BOTTOM'', position)
             else (False, ''LONG_TOO_HIGH_IN_RANGE'', position))
          else (False, ''UNKNOWN_DIRECTION'', position))"

definition structure_quality_score :: "string \<Rightarrow> real \<Rightarrow> bar list \<Rightarrow> real" where
  "structure_quality_score direction entry_price bars =
     (case calculate_range_position entry_price bars of
        None \<Rightarrow> 0
      | Some position \<Rightarrow>
          if direction = ''SHORT'' then
            (if position \<ge> 0.70 then 0.7 + ((position - 0.70) / (1.0 - 0.70)) * 0.3 else 0)
          else if direction = ''LONG'' then
            (if position \<le> 0.30 then 0.7 + ((0.30 - position) / 0.30) * 0.3 else 0)
          else 0)"

subsection \<open>Sweep quality\<close>

definition is_overnight_extreme :: "clock \<Rightarrow> real \<Rightarrow> bar list \<Rightarrow> bool" where
  "is_overnight_extreme clk level bars =
     list_ex (\<lambda>b. case own_time clk (bar_time b) of
                     None \<Rightarrow> False
                   | Some bar_tod \<Rightarrow>
                       (bar_tod \<ge> 61200 \<or> bar_tod \<le> 34200) \<and>
                       (\<bar>bar_high b - level\<bar> < 10 \<or> \<bar>bar_low b - level\<bar> < 10))
       (last_n 100 bars)"

definition is_previous_day_extreme :: "real \<Rightarrow> bar list \<Rightarrow> bool" where
  "is_previous_day_extreme level bars =
     (if length bars < 156 then False
      else let prev_day_bars = take 78 (last_n 156 bars);
               prev_day_high = py_max (map bar_high prev_day_bars);
               prev_day_low = py_min (map bar_low prev_day_bars) in
        \<bar>level - prev_day_high\<bar> < 5 \<or> \<bar>level - prev_day_low\<bar> < 5)"

definition is_clean_sweep :: "sweep \<Rightarrow> bool" where
  "is_clean_sweep sweep_data =
     (if sweep_type sweep_data = ''buyside_sweep''
      then \<bar>sweep_extreme sweep_data - sweep_close sweep_data\<bar> > 5
      else if sweep_type sweep_data = ''sellside_sweep''
      then \<bar>sweep_extreme sweep_data - sweep_close sweep_data\<bar> > 5
      else False)"

definition score_sweep :: "clock \<Rightarrow> sweep \<Rightarrow> bar list \<Rightarrow> real" where
  "score_sweep clk sweep_data bars =
     (let score = 5;
          swept_level = sweep_swing_level sweep_data;
          score = (if is_overnight_extreme clk swept_level bars then score + 3 else score);
          score = (if is_previous_day_extreme swept_level bars then score + 2 else score);
          score = (if is_clean_sweep sweep_data then score + 1 else score) in
      min score 10)"

section \<open>Signal generator (src/strategy/signal\_generator.py)\<close>

text \<open>
  The configuration the generator reads, each key with its default applied.
  \<open>FILTERS_ENABLED\<close> is the module's flag (the environment variable
  \<open>DISABLE_FILTERS\<close>).
\<close>

record config =
  MIN_SWING_CANDLES :: nat
  SWEEP_BUFFER_TICKS :: real
  MIN_FVG_SIZE_TICKS :: real
  MAX_HTF_FVG_AGE :: int
  STOP_LOSS_BUFFER_TICKS :: real
  MAX_VIX_LEVEL :: real
  MIN_SWEEP_QUALITY :: real
  USE_EDGE_FILTERS :: bool
  FILTERS_ENABLED :: bool

definition default_config :: config where
  "default_config =
     \<lparr>MIN_SWING_CANDLES = 3, SWEEP_BUFFER_TICKS = 1, MIN_FVG_SIZE_TICKS = 2,
      MAX_HTF_FVG_AGE = 20, STOP_LOSS_BUFFER_TICKS = 3, MAX_VIX_LEVEL = 25,
      MIN_SWEEP_QUALITY = 5, USE_EDGE_FILTERS = True, FILTERS_ENABLED = True\<rparr>"

record signal_generator =
  sg_config :: config
  sg_sweep_detector :: sweep_detector
  sg_htf_fvg_detector :: htf_fvg_detector
  sg_volatility_filter :: volatility_filter
  sg_filters_enabled :: bool
  sg_confirmation_state :: confirmation_state
  sg_min_sweep_quality :: real

definition empty_confirmation_state :: confirmation_state where
  "empty_confirmation_state = \<lparr>cs_sweep = None, cs_htf_fvg = None, cs_ifvg = None, cs_cisd = None\<rparr>"

text \<open>\<open>SignalGenerator.__init__\<close>.\<close>

definition new_signal_generator :: "config \<Rightarrow> signal_generator" where
  "new_signal_generator cfg =
     \<lparr>sg_config = cfg,
      sg_sweep_detector = new_sweep_detector (MIN_SWING_CANDLES cfg) (SWEEP_BUFFER_TICKS cfg),
      sg_htf_fvg_detector = new_htf_fvg_detector (MIN_FVG_SIZE_TICKS cfg) (MAX_HTF_FVG_AGE cfg),
      sg_volatility_filter = new_volatility_filter (MAX_VIX_LEVEL cfg),
      sg_filters_enabled = (FILTERS_ENABLED cfg \<and> USE_EDGE_FILTERS cfg),
      sg_confirmation_state = empty_confirmation_state,
      sg_min_sweep_quality = MIN_SWEEP_QUALITY cfg\<rparr>"

definition reset_confirmation_state :: "signal_generator \<Rightarrow> signal_generator" where
  "reset_confirmation_state self = self\<lparr>sg_confirmation_state := empty_confirmation_state\<rparr>"

text \<open>
  \<open>_run_edge_filters\<close>.  The volatility filter looks at the outside world twice (once in
  \<open>is_favorable_volatility\<close>, once in \<open>get_quality_multiplier\<close>); \<open>obs1\<close> and \<open>obs2\<close> are
  what it sees.  The sweep is the one the confirmation state holds.  The result is the
  tuple of scores, or \<open>None\<close>, and the volatility filter with its cache.
\<close>

definition run_edge_filters ::
  "signal_generator \<Rightarrow> clock \<Rightarrow> vix_obs \<Rightarrow> vix_obs \<Rightarrow> sweep \<Rightarrow> bar \<Rightarrow> string \<Rightarrow> real \<Rightarrow> bar list
     \<Rightarrow> (real \<times> real \<times> real \<times> real \<times> real) option \<times> volatility_filter" where
  "run_edge_filters self clk obs1 obs2 sw current_bar direction entry_price ltf_bars =
     (case is_optimal_time clk (bar_time current_bar) of (is_good_time, time_reason) \<Rightarrow>
      let time_score = time_quality_multiplier clk (bar_time current_bar);
          time_score = (if \<not> is_good_time then 0.5 else time_score) in
      case is_favorable_volatility (sg_volatility_filter self) obs1 of
        ((is_good_vol, vol_reason, vix), vf1) \<Rightarrow>
      (case vol_quality_multiplier vf1 obs2 of (vol_score0, vf2) \<Rightarrow>
       let vol_score = (if \<not> is_good_vol then 0.5 else vol_score0) in
       case is_at_extreme direction entry_price ltf_bars of
         (at_extreme, structure_reason, position) \<Rightarrow>
       let structure_score = structure_quality_score direction entry_price ltf_bars in
       if \<not> at_extreme then (None, vf2)
       else let sweep_quality = score_sweep clk sw ltf_bars in
         (Some (time_score, vol_score, structure_score, sweep_quality, vix), vf2)))"

text \<open>\<open>_find_opposing_liquidity\<close>; any direction but SHORT takes the LONG branch.\<close>

definition find_opposing_liquidity :: "signal_generator \<Rightarrow> sweep \<Rightarrow> string \<Rightarrow> real" where
  "find_opposing_liquidity self sw direction =
     (case get_liquidity_levels (sg_sweep_detector self) of (buyside, sellside) \<Rightarrow>
        if direction = ''SHORT'' then
          (if sellside \<noteq> [] then py_min sellside
           else sweep_swing_level sw - \<bar>sweep_swing_level sw - sweep_close sw\<bar> * 2)
        else
          (if buyside \<noteq> [] then py_max buyside
           else sweep_swing_level sw + \<bar>sweep_swing_level sw - sweep_close sw\<bar> * 2))"

text \<open>\<open>_build_signal\<close>; \<open>sw\<close> is the sweep the confirmation state holds.\<close>

definition build_signal :: "signal_generator \<Rightarrow> sweep \<Rightarrow> bar \<Rightarrow> string \<Rightarrow> real \<Rightarrow> signal" where
  "build_signal self sw current_bar direction min_tick =
     (let sweep_level = sweep_swing_level sw;
          entry_price = bar_close current_bar;
          stop_loss = (if direction = ''SHORT''
                       then sweep_level + STOP_LOSS_BUFFER_TICKS (sg_config self) * min_tick
                       else sweep_level - STOP_LOSS_BUFFER_TICKS (sg_config self) * min_tick);
          target = find_opposing_liquidity self sw direction;
          risk = \<bar>entry_price - stop_loss\<bar>;
          reward = \<bar>target - entry_price\<bar>;
          risk_reward = (if risk > 0 then reward / risk else 0) in
      \<lparr>signal_time = bar_time current_bar, signal_direction = direction,
       signal_entry = entry_price, signal_stop_loss = stop_loss, signal_target = target,
       signal_risk = risk, signal_reward = reward, signal_risk_reward_ratio = risk_reward,
       signal_confirmations = sg_confirmation_state self, signal_filter_scores = None\<rparr>)"

text \<open>The four stages of \<open>check_for_signal\<close>, each as the update it makes to the generator.\<close>

definition stage_sweep :: "signal_generator \<Rightarrow> bar list \<Rightarrow> real \<Rightarrow> signal_generator" where
  "stage_sweep self ltf_bars min_tick =
     (case detect_sweep (sg_sweep_detector self) (last ltf_bars) (butlast ltf_bars) min_tick of
        (found, det) \<Rightarrow>
          (case found of
             Some sw \<Rightarrow>
               self\<lparr>sg_sweep_detector := det,
                    sg_confirmation_state := (sg_confirmation_state self)\<lparr>cs_sweep := Some sw\<rparr>\<rparr>
           | None \<Rightarrow> self\<lparr>sg_sweep_detector := det\<rparr>))"

definition stage_htf_fvg ::
  "signal_generator \<Rightarrow> bar list \<Rightarrow> bar \<Rightarrow> real \<Rightarrow> string \<Rightarrow> signal_generator" where
  "stage_htf_fvg self htf_bars current_bar min_tick direction =
     (if cs_htf_fvg (sg_confirmation_state self) = None then
        (let det = update_fvgs (sg_htf_fvg_detector self) htf_bars min_tick in
         case check_delivery (max_age det) (active_fvgs det) current_bar of
           (htf_delivery, fvgs) \<Rightarrow>
             (let self1 = self\<lparr>sg_htf_fvg_detector := det\<lparr>active_fvgs := fvgs\<rparr>\<rparr> in
              case htf_delivery of
                Some d \<Rightarrow>
                  if delivery_direction d = direction
                  then self1\<lparr>sg_confirmation_state :=
                               (sg_confirmation_state self1)\<lparr>cs_htf_fvg := Some d\<rparr>\<rparr>
                  else self1
              | None \<Rightarrow> self1))
      else self)"

definition stage_ifvg :: "signal_generator \<Rightarrow> bar list \<Rightarrow> real \<Rightarrow> string \<Rightarrow> signal_generator" where
  "stage_ifvg self ltf_bars min_tick direction =
     (if cs_ifvg (sg_confirmation_state self) = None then
        (case detect_ifvg_inversion 1 (last_n 10 ltf_bars) direction min_tick of
           Some v \<Rightarrow>
             if ifvg_direction v = direction
             then self\<lparr>sg_confirmation_state := (sg_confirmation_state self)\<lparr>cs_ifvg := Some v\<rparr>\<rparr>
             else self
         | None \<Rightarrow> self)
      else self)"

definition stage_cisd :: "signal_generator \<Rightarrow> bar list \<Rightarrow> sweep \<Rightarrow> string \<Rightarrow> signal_generator" where
  "stage_cisd self ltf_bars sw direction =
     (if cs_cisd (sg_confirmation_state self) = None then
        (case detect_cisd ltf_bars sw direction of
           Some c \<Rightarrow>
             if cisd_direction c = direction
             then self\<lparr>sg_confirmation_state := (sg_confirmation_state self)\<lparr>cs_cisd := Some c\<rparr>\<rparr>
             else self
         | None \<Rightarrow> self)
      else self)"

text \<open>
  The four gated stages in order.  \<open>Inl\<close> is the generator at an early \<open>return None\<close>;
  \<open>Inr\<close> is the generator with all four confirmations, the sweep it holds and the
  direction read from that sweep.
\<close>

definition run_confirmations ::
  "signal_generator \<Rightarrow> bar list \<Rightarrow> bar list \<Rightarrow> real
     \<Rightarrow> signal_generator + (signal_generator \<times> sweep \<times> string)" where
  "run_confirmations self ltf_bars htf_bars min_tick =
     (let s1 = stage_sweep self ltf_bars min_tick in
      case cs_sweep (sg_confirmation_state s1) of
        None \<Rightarrow> Inl s1
      | Some sw \<Rightarrow>
         (let direction = sweep_direction sw;
              s2 = stage_htf_fvg s1 htf_bars (last ltf_bars) min_tick direction in
          if cs_htf_fvg (sg_confirmation_state s2) = None then Inl s2
          else let s3 = stage_ifvg s2 ltf_bars min_tick direction in
            if cs_ifvg (sg_confirmation_state s3) = None then Inl s3
            else let s4 = stage_cisd s3 ltf_bars sw direction in
              if cs_cisd (sg_confirmation_state s4) = None then Inl s4
              else Inr (s4, sw, direction)))"

text \<open>The tail of \<open>check_for_signal\<close>, from ``all 4 confirmations aligned'' on.\<close>

definition emit_signal ::
  "signal_generator \<Rightarrow> clock \<Rightarrow> vix_obs \<Rightarrow> vix_obs \<Rightarrow> sweep \<Rightarrow> string \<Rightarrow> bar list \<Rightarrow> real
     \<Rightarrow> signal option \<times> signal_generator" where
  "emit_signal self clk obs1 obs2 sw direction ltf_bars min_tick =
     (let current_ltf_bar = last ltf_bars; entry_price = bar_close current_ltf_bar in
      if sg_filters_enabled self then
        (case run_edge_filters self clk obs1 obs2 sw current_ltf_bar direction entry_price ltf_bars of
           (None, vf) \<Rightarrow> (None, reset_confirmation_state (self\<lparr>sg_volatility_filter := vf\<rparr>))
         | (Some (time_score, vol_score, structure_score, sweep_quality, vix), vf) \<Rightarrow>
             (let self1 = self\<lparr>sg_volatility_filter := vf\<rparr>;
                  sg = build_signal self1 sw current_ltf_bar direction min_tick in
              (Some (sg\<lparr>signal_filter_scores := Some
                   \<lparr>fs_time_score = time_score, fs_volatility_score = vol_score,
                    fs_structure_score = structure_score, fs_sweep_quality = sweep_quality,
                    fs_overall_score = (time_score + vol_score + structure_score) / 3,
                    fs_vix = vix, fs_filters_enabled = sg_filters_enabled self1\<rparr>\<rparr>),
               reset_confirmation_state self1)))
      else
        (let sg = build_signal self sw current_ltf_bar direction min_tick in
         (Some (sg\<lparr>signal_filter_scores := Some
              \<lparr>fs_time_score = 1, fs_volatility_score = 1, fs_structure_score = 1,
               fs_sweep_quality = 10, fs_overall_score = (1 + 1 + 1) / 3, fs_vix = 15,
               fs_filters_enabled = sg_filters_enabled self\<rparr>\<rparr>),
          reset_confirmation_state self)))"

definition check_for_signal ::
  "signal_generator \<Rightarrow> clock \<Rightarrow> vix_obs \<Rightarrow> vix_obs \<Rightarrow> bar list \<Rightarrow> bar list \<Rightarrow> real
     \<Rightarrow> signal option \<times> signal_generator" where
  "check_for_signal self clk obs1 obs2 ltf_bars htf_bars min_tick =
     (if length ltf_bars < 20 \<or> length htf_bars < 20 then (None, self)
      else case run_confirmations self ltf_bars htf_bars min_tick of
        Inl s \<Rightarrow> (None, s)
      | Inr (s, sw, direction) \<Rightarrow> emit_signal s clk obs1 obs2 sw direction ltf_bars min_tick)"

section \<open>Scenarios\<close>

text \<open>Concrete inputs at which the theorems below are instantiated.\<close>

definition scenario_sizer :: position_sizer where
  "scenario_sizer = new_position_sizer 50000 0.005"

definition short_signal :: signal where
  "short_signal =
     \<lparr>signal_time = 0, signal_direction = ''SHORT'', signal_entry = 100, signal_stop_loss = 106,
      signal_target = 88, signal_risk = 6, signal_reward = 12, signal_risk_reward_ratio = 2,
      signal_confirmations = empty_confirmation_state, signal_filter_scores = None\<rparr>"

definition one_contract :: position_size where
  "one_contract =
     \<lparr>ps_symbol = ''MNQ'', ps_contracts = 1, ps_entry = 100, ps_stop = 106, ps_risk_points = 6,
      ps_risk_per_contract = 48, ps_total_risk_dollars = 48, ps_risk_percentage = 0.096,
      ps_tick_value = 2\<rparr>"

definition quiet_bar :: bar where
  "quiet_bar = \<lparr>bar_time = 1, bar_open = 100, bar_high = 103, bar_low = 95, bar_close = 99,
                 bar_volume = 0\<rparr>"

definition spike_bar :: bar where
  "spike_bar = \<lparr>bar_time = 2, bar_open = 99, bar_high = 107, bar_low = 87, bar_close = 90,
                 bar_volume = 0\<rparr>"



definition candle :: "nat \<Rightarrow> real \<Rightarrow> real \<Rightarrow> real \<Rightarrow> real \<Rightarrow> bar" where
  "candle t op hi lo cl =
     \<lparr>bar_time = t, bar_open = op, bar_high = hi, bar_low = lo, bar_close = cl, bar_volume = 0\<rparr>"

definition delivering_gap :: fvg where
  "delivering_gap =
     \<lparr>fvg_type = ''bearish'', fvg_top = 108, fvg_bottom = 99, fvg_size = 9, fvg_start_index = 10,
      fvg_start_time = 10, fvg_direction = ''SHORT'', fvg_filled = False, fvg_age = 0\<rparr>"

definition waiting_gap :: fvg where
  "waiting_gap =
     \<lparr>fvg_type = ''bullish'', fvg_top = 80, fvg_bottom = 70, fvg_size = 10, fvg_start_index = 12,
      fvg_start_time = 12, fvg_direction = ''LONG'', fvg_filled = False, fvg_age = 0\<rparr>"

definition old_gap :: fvg where
  "old_gap =
     \<lparr>fvg_type = ''bullish'', fvg_top = 60, fvg_bottom = 50, fvg_size = 10, fvg_start_index = 2,
      fvg_start_time = 2, fvg_direction = ''LONG'', fvg_filled = False, fvg_age = 20\<rparr>"

definition reversal_bar :: bar where
  "reversal_bar = candle 20 104 111 92 93"

definition short_window :: "bar list" where
  "short_window =
     [candle 0 100 105 95 100, candle 1 100 105 95 100, candle 2 100 105 95 100,
      candle 3 101 105 95 99, candle 4 100 105 95 101, candle 5 101 111 95 100,
      candle 6 100 101 94 95]"

definition window_sweep :: sweep where
  "window_sweep =
     \<lparr>sweep_type = ''buyside_sweep'', sweep_swing_level = 110, sweep_extreme = 111,
      sweep_close = 100, sweep_time = 5, sweep_direction = ''SHORT''\<rparr>"

definition full_window :: "bar list" where
  "full_window =
     [candle 0 100 105 95 100, candle 1 100 105 95 100, candle 2 100 105 95 100,
      candle 3 100 105 95 100, candle 4 100 105 95 100, candle 5 100 105 95 100,
      candle 6 100 105 95 100, candle 7 100 105 95 100, candle 8 101 105 95 99,
      candle 9 100 105 95 101, candle 10 101 111 95 100, candle 11 100 101 94 95]"

definition full_window_sweep :: sweep where
  "full_window_sweep =
     \<lparr>sweep_type = ''buyside_sweep'', sweep_swing_level = 110, sweep_extreme = 111,
      sweep_close = 100, sweep_time = 10, sweep_direction = ''SHORT''\<rparr>"

definition rally_window :: "bar list" where
  "rally_window =
     [candle 0 100 105 95 101, candle 1 101 105 95 102, candle 2 102 105 95 103,
      candle 3 103 105 95 104, candle 4 104 106 95 105, candle 5 105 107 95 106,
      candle 6 106 108 95 107, candle 7 107 109 95 108, candle 8 108 110 95 109,
      candle 9 109 111 95 110, candle 10 110 112 95 111, candle 11 111 120 95 100,
      candle 12 100 101 49 50]"

definition rally_sweep :: sweep where
  "rally_sweep =
     \<lparr>sweep_type = ''buyside_sweep'', sweep_swing_level = 115, sweep_extreme = 120,
      sweep_close = 100, sweep_time = 11, sweep_direction = ''SHORT''\<rparr>"

definition early_window :: "bar list" where
  "early_window =
     [candle 0 101 105 95 99, candle 1 101 105 95 102, candle 2 102 105 95 103,
      candle 3 103 105 95 104, candle 4 104 106 95 105, candle 5 105 111 95 100,
      candle 6 100 105 95 100, candle 7 100 105 95 100, candle 8 100 105 95 100,
      candle 9 100 105 95 100, candle 10 100 105 95 100, candle 11 100 101 94 95]"

definition early_sweep :: sweep where
  "early_sweep =
     \<lparr>sweep_type = ''buyside_sweep'', sweep_swing_level = 110, sweep_extreme = 111,
      sweep_close = 100, sweep_time = 5, sweep_direction = ''SHORT''\<rparr>"

definition late_window :: "bar list" where
  "late_window =
     [candle 0 100 105 95 100, candle 1 100 105 95 100, candle 2 103 105 95 101,
      candle 3 103 105 95 104, candle 4 104 106 95 105, candle 5 105 107 95 106,
      candle 6 106 108 95 107, candle 7 107 109 95 108, candle 8 108 110 95 109,
      candle 9 109 111 95 110, candle 10 110 112 95 111, candle 11 111 113 95 112,
      candle 12 112 120 95 100, candle 13 100 101 94 95]"

definition late_sweep :: sweep where
  "late_sweep =
     \<lparr>sweep_type = ''buyside_sweep'', sweep_swing_level = 115, sweep_extreme = 120,
      sweep_close = 100, sweep_time = 12, sweep_direction = ''SHORT''\<rparr>"

definition flat :: "nat \<Rightarrow> bar" where
  "flat t = candle t 100 105 95 100"

definition ltf_first :: "bar list" where
  "ltf_first =
     [flat 0, flat 1, flat 2, flat 3, flat 4, candle 5 100 110 95 100, flat 6, flat 7, flat 8,
      flat 9, candle 10 100 105 90 100, flat 11, flat 12, flat 13, flat 14, flat 15, flat 16,
      flat 17, flat 18, candle 19 100 104 96 100, candle 20 104 111 92 93]"

definition ltf_second :: "bar list" where
  "ltf_second = ltf_first @ [candle 21 92 107 89 106]"

definition htf_gap :: "bar list" where
  "htf_gap =
     [flat 0, flat 1, flat 2, flat 3, flat 4, flat 5, flat 6, flat 7, flat 8, flat 9,
      candle 10 104 108 100 104, candle 11 103 106 101 103, candle 12 101 104 99 101,
      flat 13, flat 14, flat 15, flat 16, flat 17, flat 18, flat 19]"

definition plain_config :: config where
  "plain_config = default_config\<lparr>USE_EDGE_FILTERS := False\<rparr>"

text \<open>Bars one second apart from 09:30:01 in New York, stamped in New York time.\<close>

definition session_clock :: clock where
  "session_clock =
     \<lparr>ny_time = (\<lambda>t. Local_time (34201 + real t)), own_time = (\<lambda>t. Some (34201 + real t))\<rparr>"

definition calm_obs :: vix_obs where
  "calm_obs = \<lparr>obs_now = 0, obs_fetch = Fetched 12\<rparr>"

definition stormy_obs :: vix_obs where
  "stormy_obs = \<lparr>obs_now = 0, obs_fetch = Fetched 30\<rparr>"

definition after_first_call :: signal_generator where
  "after_first_call =
     \<lparr>sg_config = plain_config,
      sg_sweep_detector =
        \<lparr>min_swing_candles = 3, sweep_buffer_ticks = 1,
         swing_highs = [\<lparr>swing_index = 5, swing_time = 5, swing_price = 110,
                         swing_type = ''swing_high''\<rparr>],
         swing_lows = [\<lparr>swing_index = 10, swing_time = 10, swing_price = 90,
                        swing_type = ''swing_low''\<rparr>]\<rparr>,
      sg_htf_fvg_detector =
        \<lparr>min_fvg_size_ticks = 2, max_age = 20,
         active_fvgs =
           [\<lparr>fvg_type = ''bearish'', fvg_top = 108, fvg_bottom = 99, fvg_size = 9,
              fvg_start_index = 10, fvg_start_time = 10, fvg_direction = ''SHORT'',
              fvg_filled = False, fvg_age = 1\<rparr>,
            \<lparr>fvg_type = ''bearish'', fvg_top = 106, fvg_bottom = 95, fvg_size = 11,
              fvg_start_index = 11, fvg_start_time = 11, fvg_direction = ''SHORT'',
              fvg_filled = False, fvg_age = 0\<rparr>]\<rparr>,
      sg_volatility_filter = new_volatility_filter 25,
      sg_filters_enabled = False,
      sg_confirmation_state =
        \<lparr>cs_sweep = Some \<lparr>sweep_type = ''buyside_sweep'', sweep_swing_level = 110,
                          sweep_extreme = 111, sweep_close = 93, sweep_time = 20,
                          sweep_direction = ''SHORT''\<rparr>,
         cs_htf_fvg = Some \<lparr>delivery_fvg =
                              \<lparr>fvg_type = ''bearish'', fvg_top = 108, fvg_bottom = 99,
                               fvg_size = 9, fvg_start_index = 10, fvg_start_time = 10,
                               fvg_direction = ''SHORT'', fvg_filled = False, fvg_age = 1\<rparr>,
                            delivery_confirmed = True, delivery_time = 20,
                            delivery_direction = ''SHORT''\<rparr>,
         cs_ifvg = None, cs_cisd = None\<rparr>,
      sg_min_sweep_quality = 5\<rparr>"

definition ltf_day :: "bar list" where
  "ltf_day =
     map flat [0 ..< 5] @ [candle 5 100 110 95 100] @ map flat [6 ..< 10]
     @ [candle 10 100 105 30 100] @ map flat [11 ..< 75]
     @ [candle 75 100 104 96 100, candle 76 100 106 97 105, candle 77 105 111 92 93]"

text \<open>Bars whose \<open>time\<close> is neither a string nor a datetime.\<close>

definition blind_clock :: clock where
  "blind_clock = \<lparr>ny_time = (\<lambda>t. Invalid_time_type), own_time = (\<lambda>t. None)\<rparr>"

section \<open>Position sizing: claims C3 and C4\<close>

lemma rounds_to_inf_not_zero: "rounds_to_inf x \<Longrightarrow> \<not> rounds_to_zero x"
proof -
  assume "rounds_to_inf x"
  then have "(2::real) ^ 1024 - 2 ^ 970 \<le> \<bar>x\<bar>" by (simp only: rounds_to_inf_def)
  moreover have "(1::real) \<le> 2 ^ 1024 - 2 ^ 970" by simp
  moreover have "(1::real) / 2 ^ 1075 < 1" by simp
  ultimately show ?thesis unfolding rounds_to_zero_def by linarith
qed

lemma result_class_cases:
  "result_class x = Zero \<longleftrightarrow> rounds_to_zero x"
  "result_class x = Infinite \<longleftrightarrow> rounds_to_inf x"
  using rounds_to_inf_not_zero [of x] by (auto simp: result_class_def)




text \<open>
  It fails outside the range of doubles too.  With a tick value of \<open>1e-307\<close> the quotient
  \<open>250 / 4e-307\<close> is an infinity and \<open>int()\<close> raises; with a minimum tick of \<open>1e10\<close>
  and a tick value of \<open>1e-320\<close> the risk per contract \<open>1e-10 * 1e-320\<close> is zero and the
  division raises; for a sizer built with an account of \<open>1e308\<close> and a risk of \<open>10\<close> per
  trade \<open>max_risk_dollars\<close> is an infinity, and so is the quotient.
\<close>

lemma sizing_quotient_overflow:
  "calculate_position_size scenario_sizer ''ES'' 100 99 (1 / 10 ^ 307) 0.25 = Inl OverflowError"
  by (simp add: calculate_position_size_def py_div_def py_mul_def py_abs_def py_sub_def
      py_int_def float_of_def stored_float_def result_class_def rounds_to_inf_def
      rounds_to_zero_def Let_def
      new_position_sizer_def scenario_sizer_def)

lemma sizing_product_underflow:
  "calculate_position_size scenario_sizer ''ES'' 100 99 (1 / 10 ^ 320) (10 ^ 10)
     = Inl ZeroDivisionError"
  by (simp add: calculate_position_size_def py_div_def py_mul_def py_abs_def py_sub_def
      py_int_def float_of_def stored_float_def result_class_def rounds_to_inf_def
      rounds_to_zero_def Let_def
      new_position_sizer_def scenario_sizer_def)

lemma sizing_stored_overflow:
  "calculate_position_size (new_position_sizer (10 ^ 308) 10) ''ES'' 100 99 2 0.25
     = Inl OverflowError"
  by (simp add: calculate_position_size_def py_div_def py_mul_def py_abs_def py_sub_def
      py_int_def float_of_def stored_float_def result_class_def rounds_to_inf_def
      rounds_to_zero_def Let_def new_position_sizer_def)

lemma scenario_contracts:
  "map_sum id ps_contracts (calculate_position_size scenario_sizer ''MNQ'' 16515 16527 2 0.25)
     = Inr 1"
  by (simp add: calculate_position_size_def py_div_def py_mul_def py_abs_def py_sub_def
      py_int_def float_of_def stored_float_def result_class_def rounds_to_inf_def
      rounds_to_zero_def Let_def
      new_position_sizer_def get_mnq_contracts_def scenario_sizer_def)

text \<open>
  Claim C4.  \<open>_build_signal\<close> defines the ratio as 0 when the risk is 0 (lemma
  \<open>build_signal_zero_risk\<close>), but \<open>calculate_position_size\<close> called with entry = stop does
  not complete: whatever the sizer, symbol, tick value and minimum tick, it raises
  \<open>ZeroDivisionError\<close>.
\<close>

theorem sizing_zero_risk_raises:
  "calculate_position_size self symbol entry entry tick_value min_tick = Inl ZeroDivisionError"
  by (simp add: calculate_position_size_def py_div_def py_mul_def py_abs_def py_sub_def
      float_of_def stored_float_def Let_def)

lemma build_signal_zero_risk:
  "signal_risk (build_signal self sw b d mt) = 0
     \<Longrightarrow> signal_risk_reward_ratio (build_signal self sw b d mt) = 0"
  by (simp add: build_signal_def Let_def)

section \<open>Trade simulation: claim C8\<close>

lemma py_index_mem: "x \<in> set xs \<Longrightarrow> \<exists>i. py_index xs x = Some i"
  by (induction xs) auto

lemma py_index_take: "x \<in> set (take n xs) \<Longrightarrow> py_index (take n xs) x = py_index xs x"
proof (induction xs arbitrary: n)
  case Nil
  then show ?case by simp
next
  case (Cons y ys)
  then show ?case by (cases n) auto
qed

lemma scan_bars_skip:
  "\<forall>b\<in>set pre. \<not> stop_hit sg b \<and> \<not> target_hit sg b \<Longrightarrow>
   scan_bars sg p fb (pre @ rest) = scan_bars sg p fb rest"
  by (induction pre) auto

lemma scan_bars_none:
  "\<forall>b\<in>set bs. \<not> stop_hit sg b \<and> \<not> target_hit sg b \<Longrightarrow> scan_bars sg p fb bs = None"
  by (induction bs) auto

lemma scan_bars_take:
  "set bs \<subseteq> set (take n fb) \<Longrightarrow> scan_bars sg p (take n fb) bs = scan_bars sg p fb bs"
proof (induction bs)
  case Nil
  then show ?case by simp
next
  case (Cons b bs)
  then have "py_index (take n fb) b = py_index fb b" by (simp add: py_index_take)
  with Cons show ?case by (simp add: close_trade_def)
qed

lemma simulate_trade_take: "simulate_trade sg p fb = simulate_trade sg p (take 100 fb)"
proof -
  have "scan_bars sg p (take 100 fb) (take 100 fb) = scan_bars sg p fb (take 100 fb)"
    by (rule scan_bars_take) simp
  then show ?thesis by (simp add: simulate_trade_def Let_def min_def)
qed

lemma simulate_trade_stop:
  assumes i: "i < min 100 (length fb)" and hit: "stop_hit sg (fb ! i)"
    and before: "\<forall>j<i. \<not> stop_hit sg (fb ! j) \<and> \<not> target_hit sg (fb ! j)"
  shows "\<exists>t. simulate_trade sg p fb = Inr t \<and> trade_result t = ''LOSS''
      \<and> trade_pnl t = - ps_total_risk_dollars p \<and> trade_exit t = signal_stop_loss sg"
proof -
  let ?bs = "take (min 100 (length fb)) fb"
  have len: "i < length ?bs" using i by simp
  have split: "?bs = take i ?bs @ (?bs ! i) # drop (Suc i) ?bs"
    using len by (rule id_take_nth_drop)
  have nth: "?bs ! i = fb ! i" using i by simp
  have pre: "\<forall>b\<in>set (take i ?bs). \<not> stop_hit sg b \<and> \<not> target_hit sg b"
  proof
    fix b assume "b \<in> set (take i ?bs)"
    then obtain j where "j < length (take i ?bs)" "take i ?bs ! j = b"
      by (auto simp: in_set_conv_nth)
    then have "j < i" "b = fb ! j" using i by auto
    with before show "\<not> stop_hit sg b \<and> \<not> target_hit sg b" by simp
  qed
  have mem: "fb ! i \<in> set fb" using i by simp
  then obtain k where k: "py_index fb (fb ! i) = Some k" using py_index_mem by fastforce
  have "scan_bars sg p fb ?bs = scan_bars sg p fb ((fb ! i) # drop (Suc i) ?bs)"
    using scan_bars_skip [OF pre] split nth by metis
  also have "\<dots> = Some (close_trade sg p fb (fb ! i) (signal_stop_loss sg)
                        (- ps_total_risk_dollars p) ''LOSS'')"
    using hit by simp
  finally show ?thesis using k by (simp add: simulate_trade_def Let_def close_trade_def)
qed

lemma simulate_trade_breakeven:
  assumes "\<forall>i<min 100 (length fb). \<not> stop_hit sg (fb ! i) \<and> \<not> target_hit sg (fb ! i)"
  shows "\<exists>t. simulate_trade sg p fb = Inr t \<and> trade_result t = ''BREAKEVEN''
      \<and> trade_pnl t = 0 \<and> trade_exit t = signal_entry sg"
proof -
  let ?bs = "take (min 100 (length fb)) fb"
  have "\<forall>b\<in>set ?bs. \<not> stop_hit sg b \<and> \<not> target_hit sg b"
  proof
    fix b assume "b \<in> set ?bs"
    then obtain j where "j < length ?bs" "?bs ! j = b" by (auto simp: in_set_conv_nth)
    then have "j < min 100 (length fb)" "b = fb ! j" by auto
    with assms show "\<not> stop_hit sg b \<and> \<not> target_hit sg b" by simp
  qed
  then have "scan_bars sg p fb ?bs = None" by (rule scan_bars_none)
  then show ?thesis by (simp add: simulate_trade_def Let_def)
qed

text \<open>
  Claim C8.  For every signal, position size and sequence of future bars:
  if, among the first 100 bars, a bar hits the stop and no earlier bar hits the stop or the
  target (the bar itself may hit the target too), the trade is a LOSS with
  \<open>pnl = - total_risk_dollars\<close> and exit at the stop; if no bar among the first 100 hits the
  stop or the target, the trade is BREAKEVEN with \<open>pnl = 0\<close> and exit at the entry; and the
  result is that of the first 100 bars alone.
\<close>

theorem simulate_trade_stop_first:
  "(\<forall>i. i < min 100 (length fb) \<and> stop_hit sg (fb ! i)
        \<and> (\<forall>j<i. \<not> stop_hit sg (fb ! j) \<and> \<not> target_hit sg (fb ! j))
      \<longrightarrow> (\<exists>t. simulate_trade sg p fb = Inr t \<and> trade_result t = ''LOSS''
            \<and> trade_pnl t = - ps_total_risk_dollars p \<and> trade_exit t = signal_stop_loss sg))
   \<and> ((\<forall>i<min 100 (length fb). \<not> stop_hit sg (fb ! i) \<and> \<not> target_hit sg (fb ! i))
      \<longrightarrow> (\<exists>t. simulate_trade sg p fb = Inr t \<and> trade_result t = ''BREAKEVEN''
            \<and> trade_pnl t = 0 \<and> trade_exit t = signal_entry sg))
   \<and> simulate_trade sg p fb = simulate_trade sg p (take 100 fb)"
  using simulate_trade_stop [of _ fb sg p] simulate_trade_breakeven [of fb sg p]
    simulate_trade_take [of sg p fb] by blast

text \<open>
  The short trade of the specification (entry 100, stop 106, target 88): a quiet bar, then
  a bar whose high reaches 107 and whose low reaches 87 is a loss; the quiet bar alone is a
  breakeven.
\<close>

theorem simulate_trade_stop_first_witness:
  "(\<exists>t. simulate_trade short_signal one_contract [quiet_bar, spike_bar] = Inr t
       \<and> trade_result t = ''LOSS'' \<and> trade_pnl t = - ps_total_risk_dollars one_contract
       \<and> trade_exit t = signal_stop_loss short_signal)
   \<and> (\<exists>t. simulate_trade short_signal one_contract [quiet_bar] = Inr t
       \<and> trade_result t = ''BREAKEVEN'' \<and> trade_pnl t = 0
       \<and> trade_exit t = signal_entry short_signal)"
proof
  have h: "1 < min 100 (length [quiet_bar, spike_bar])
      \<and> stop_hit short_signal ([quiet_bar, spike_bar] ! 1)
      \<and> (\<forall>j<1. \<not> stop_hit short_signal ([quiet_bar, spike_bar] ! j)
             \<and> \<not> target_hit short_signal ([quiet_bar, spike_bar] ! j))"
    by (simp add: stop_hit_def target_hit_def short_signal_def quiet_bar_def spike_bar_def)
  from simulate_trade_stop_first [of "[quiet_bar, spike_bar]" short_signal one_contract,
      THEN conjunct1, rule_format, OF h]
  show "\<exists>t. simulate_trade short_signal one_contract [quiet_bar, spike_bar] = Inr t
       \<and> trade_result t = ''LOSS'' \<and> trade_pnl t = - ps_total_risk_dollars one_contract
       \<and> trade_exit t = signal_stop_loss short_signal" .
next
  have h: "\<forall>i<min 100 (length [quiet_bar]).
      \<not> stop_hit short_signal ([quiet_bar] ! i) \<and> \<not> target_hit short_signal ([quiet_bar] ! i)"
    by (simp add: stop_hit_def target_hit_def short_signal_def quiet_bar_def)
  from simulate_trade_stop_first [of "[quiet_bar]" short_signal one_contract,
      THEN conjunct2, THEN conjunct1, THEN mp, OF h]
  show "\<exists>t. simulate_trade short_signal one_contract [quiet_bar] = Inr t
       \<and> trade_result t = ''BREAKEVEN'' \<and> trade_pnl t = 0
       \<and> trade_exit t = signal_entry short_signal" .
qed

section \<open>Liquidity sweep: claim C7\<close>



section \<open>FVG delivery: claim C5\<close>

lemma fvg_step_aged:
  "\<not> fvg_filled f \<Longrightarrow> fvg_age (fst (fvg_step L b f)) = fvg_age f + 1"
  by (simp add: fvg_step_def Let_def)

lemma fvg_step_expired:
  "\<not> fvg_filled f \<Longrightarrow> fvg_age f + 1 > L \<Longrightarrow>
     fvg_filled (fst (fvg_step L b f)) \<and> snd (fvg_step L b f) = None"
  by (simp add: fvg_step_def Let_def)

lemma fvg_step_delivery:
  "fvg_step L b f = (f', Some d) \<Longrightarrow> delivery_fvg d = f' \<and> \<not> fvg_filled f'"
  by (auto simp: fvg_step_def Let_def split: if_splits)

lemma check_delivery_Cons_Some:
  "fvg_step L b f = (f', Some d) \<Longrightarrow> check_delivery L (f # fs) b = (Some d, f' # fs)"
  by simp

lemma check_delivery_Cons_None:
  "fvg_step L b f = (f', None) \<Longrightarrow> check_delivery L fs b = (r, fs')
     \<Longrightarrow> check_delivery L (f # fs) b = (r, f' # fs')"
  by simp

lemma check_delivery_unfilled:
  "check_delivery L fs b = (Some d, fs') \<Longrightarrow> \<not> fvg_filled (delivery_fvg d)"
proof (induction fs arbitrary: fs')
  case Nil
  then show ?case by simp
next
  case (Cons f fs)
  obtain f' o1 where st: "fvg_step L b f = (f', o1)" by (cases "fvg_step L b f")
  show ?case
  proof (cases o1)
    case (Some d1)
    with st have "check_delivery L (f # fs) b = (Some d1, f' # fs)"
      by (simp only: check_delivery_Cons_Some)
    with Cons.prems have "d1 = d" by simp
    with st Some show ?thesis using fvg_step_delivery by blast
  next
    case None
    obtain r0 fs0 where rec: "check_delivery L fs b = (r0, fs0)"
      by (cases "check_delivery L fs b")
    with st None have "check_delivery L (f # fs) b = (r0, f' # fs0)"
      by (simp only: check_delivery_Cons_None)
    with Cons.prems have "r0 = Some d" by simp
    with rec Cons.IH show ?thesis by blast
  qed
qed

text \<open>
  Claim C5, as amended.  \<open>check_delivery\<close> leaves the list at its length.  The loop visits
  the FVGs in order up to an index \<open>k\<close>: the whole list when no delivery is returned, and up
  to and including the FVG of the returned delivery otherwise.  Every visited FVG that was
  not filled at the start of the call has its age incremented by exactly 1, and every such
  FVG whose incremented age exceeds \<open>max_age\<close> is marked filled and is not the FVG of the
  returned delivery.  The FVGs after \<open>k\<close> are left as they were.
\<close>

theorem check_delivery_aging:
  assumes "check_delivery L fs b = (r, fs')"
  shows "length fs' = length fs \<and>
    (\<exists>k\<le>length fs.
       (r = None \<longrightarrow> k = length fs) \<and>
       (\<forall>d. r = Some d \<longrightarrow> k < length fs \<and> delivery_fvg d = fs' ! k) \<and>
       (\<forall>i<length fs. i \<le> k \<and> \<not> fvg_filled (fs ! i) \<longrightarrow>
           fvg_age (fs' ! i) = fvg_age (fs ! i) + 1 \<and>
           (fvg_age (fs ! i) + 1 > L \<longrightarrow>
              fvg_filled (fs' ! i) \<and> (\<forall>d. r = Some d \<longrightarrow> delivery_fvg d \<noteq> fs' ! i))) \<and>
       (\<forall>i<length fs. k < i \<longrightarrow> fs' ! i = fs ! i))"
  using assms
proof (induction fs arbitrary: r fs')
  case Nil
  then show ?case by simp
next
  case (Cons f fs)
  obtain f' o1 where st: "fvg_step L b f = (f', o1)" by (cases "fvg_step L b f")
  have aged: "\<not> fvg_filled f \<Longrightarrow> fvg_age f' = fvg_age f + 1"
    using fvg_step_aged [of f L b] st by simp
  have expired: "\<not> fvg_filled f \<Longrightarrow> fvg_age f + 1 > L \<Longrightarrow> fvg_filled f' \<and> o1 = None"
    using fvg_step_expired [of f L b] st by simp
  show ?case
  proof (cases o1)
    case (Some d)
    with st have "check_delivery L (f # fs) b = (Some d, f' # fs)"
      by (simp only: check_delivery_Cons_Some)
    with Cons.prems have r: "r = Some d" and fs': "fs' = f' # fs" by simp_all
    from st Some have dl: "delivery_fvg d = f'" using fvg_step_delivery by blast
    have c0: "length fs' = length (f # fs)" using fs' by simp
    have c1: "0 \<le> length (f # fs)" by simp
    have c2: "r = None \<longrightarrow> 0 = length (f # fs)" using r by simp
    have c3: "\<forall>d. r = Some d \<longrightarrow> 0 < length (f # fs) \<and> delivery_fvg d = fs' ! 0"
      using r fs' dl by simp
    have c4: "\<forall>i<length (f # fs). i \<le> 0 \<and> \<not> fvg_filled ((f # fs) ! i) \<longrightarrow>
           fvg_age (fs' ! i) = fvg_age ((f # fs) ! i) + 1 \<and>
           (fvg_age ((f # fs) ! i) + 1 > L \<longrightarrow>
              fvg_filled (fs' ! i) \<and> (\<forall>d. r = Some d \<longrightarrow> delivery_fvg d \<noteq> fs' ! i))"
    proof (intro allI impI)
      fix i assume "i < length (f # fs)" and h: "i \<le> 0 \<and> \<not> fvg_filled ((f # fs) ! i)"
      then have i0: "i = 0" and nf: "\<not> fvg_filled f" by auto
      have "\<not> fvg_age f + 1 > L" using expired [OF nf] Some by auto
      then show "fvg_age (fs' ! i) = fvg_age ((f # fs) ! i) + 1 \<and>
           (fvg_age ((f # fs) ! i) + 1 > L \<longrightarrow>
              fvg_filled (fs' ! i) \<and> (\<forall>d. r = Some d \<longrightarrow> delivery_fvg d \<noteq> fs' ! i))"
        using i0 fs' aged [OF nf] by simp
    qed
    have c5: "\<forall>i<length (f # fs). 0 < i \<longrightarrow> fs' ! i = (f # fs) ! i"
      using fs' by (simp add: nth_Cons')
    have "\<exists>k\<le>length (f # fs).
       (r = None \<longrightarrow> k = length (f # fs)) \<and>
       (\<forall>d. r = Some d \<longrightarrow> k < length (f # fs) \<and> delivery_fvg d = fs' ! k) \<and>
       (\<forall>i<length (f # fs). i \<le> k \<and> \<not> fvg_filled ((f # fs) ! i) \<longrightarrow>
           fvg_age (fs' ! i) = fvg_age ((f # fs) ! i) + 1 \<and>
           (fvg_age ((f # fs) ! i) + 1 > L \<longrightarrow>
              fvg_filled (fs' ! i) \<and> (\<forall>d. r = Some d \<longrightarrow> delivery_fvg d \<noteq> fs' ! i))) \<and>
       (\<forall>i<length (f # fs). k < i \<longrightarrow> fs' ! i = (f # fs) ! i)"
      by (rule exI [of _ 0]) (intro conjI c1 c2 c3 c4 c5)
    with c0 show ?thesis by (rule conjI)
  next
    case None
    obtain r0 fs0 where rec: "check_delivery L fs b = (r0, fs0)"
      by (cases "check_delivery L fs b")
    with st None have "check_delivery L (f # fs) b = (r0, f' # fs0)"
      by (simp only: check_delivery_Cons_None)
    with Cons.prems have r: "r = r0" and fs': "fs' = f' # fs0" by simp_all
    have ih: "length fs0 = length fs \<and>
      (\<exists>k\<le>length fs.
       (r0 = None \<longrightarrow> k = length fs) \<and>
       (\<forall>d. r0 = Some d \<longrightarrow> k < length fs \<and> delivery_fvg d = fs0 ! k) \<and>
       (\<forall>i<length fs. i \<le> k \<and> \<not> fvg_filled (fs ! i) \<longrightarrow>
           fvg_age (fs0 ! i) = fvg_age (fs ! i) + 1 \<and>
           (fvg_age (fs ! i) + 1 > L \<longrightarrow>
              fvg_filled (fs0 ! i) \<and> (\<forall>d. r0 = Some d \<longrightarrow> delivery_fvg d \<noteq> fs0 ! i))) \<and>
       (\<forall>i<length fs. k < i \<longrightarrow> fs0 ! i = fs ! i))"
      by (rule Cons.IH [OF rec])
    then have len: "length fs0 = length fs" by (rule conjunct1)
    from ih [THEN conjunct2] obtain k where k: "k \<le> length fs"
      and kn: "r0 = None \<longrightarrow> k = length fs"
      and kd: "\<forall>d. r0 = Some d \<longrightarrow> k < length fs \<and> delivery_fvg d = fs0 ! k"
      and ka: "\<forall>i<length fs. i \<le> k \<and> \<not> fvg_filled (fs ! i) \<longrightarrow>
           fvg_age (fs0 ! i) = fvg_age (fs ! i) + 1 \<and>
           (fvg_age (fs ! i) + 1 > L \<longrightarrow>
              fvg_filled (fs0 ! i) \<and> (\<forall>d. r0 = Some d \<longrightarrow> delivery_fvg d \<noteq> fs0 ! i))"
      and ku: "\<forall>i<length fs. k < i \<longrightarrow> fs0 ! i = fs ! i"
      by (elim exE conjE)
    have unfilled: "\<not> fvg_filled (delivery_fvg d)" if "r0 = Some d" for d
    proof -
      from rec that have "check_delivery L fs b = (Some d, fs0)" by simp
      then show ?thesis by (rule check_delivery_unfilled)
    qed
    have c0: "length fs' = length (f # fs)" using fs' len by simp
    have c1: "Suc k \<le> length (f # fs)" using k by simp
    have c2: "r = None \<longrightarrow> Suc k = length (f # fs)" using kn r by simp
    have c3: "\<forall>d. r = Some d \<longrightarrow> Suc k < length (f # fs) \<and> delivery_fvg d = fs' ! Suc k"
    proof (intro allI impI)
      fix d assume "r = Some d"
      then have "r0 = Some d" by (simp only: r)
      from kd [THEN spec, THEN mp, OF this]
      have "k < length fs" and "delivery_fvg d = fs0 ! k" by (rule conjunct1, rule conjunct2)
      then show "Suc k < length (f # fs) \<and> delivery_fvg d = fs' ! Suc k"
        by (simp only: fs' nth_Cons_Suc list.size length_Cons Suc_less_eq simp_thms)
    qed
    have c4: "\<forall>i<length (f # fs). i \<le> Suc k \<and> \<not> fvg_filled ((f # fs) ! i) \<longrightarrow>
           fvg_age (fs' ! i) = fvg_age ((f # fs) ! i) + 1 \<and>
           (fvg_age ((f # fs) ! i) + 1 > L \<longrightarrow>
              fvg_filled (fs' ! i) \<and> (\<forall>d. r = Some d \<longrightarrow> delivery_fvg d \<noteq> fs' ! i))"
    proof (intro allI impI)
      fix i assume i: "i < length (f # fs)" and h: "i \<le> Suc k \<and> \<not> fvg_filled ((f # fs) ! i)"
      show "fvg_age (fs' ! i) = fvg_age ((f # fs) ! i) + 1 \<and>
           (fvg_age ((f # fs) ! i) + 1 > L \<longrightarrow>
              fvg_filled (fs' ! i) \<and> (\<forall>d. r = Some d \<longrightarrow> delivery_fvg d \<noteq> fs' ! i))"
      proof (cases i)
        case 0
        with h have nf: "\<not> fvg_filled f" by simp
        have "fvg_age f + 1 > L \<Longrightarrow> \<forall>d. r0 = Some d \<longrightarrow> delivery_fvg d \<noteq> f'"
          using expired [OF nf] unfilled by auto
        then show ?thesis using 0 fs' r aged [OF nf] expired [OF nf] by simp
      next
        case (Suc j)
        with i h have "j < length fs" "j \<le> k \<and> \<not> fvg_filled (fs ! j)" by simp_all
        with ka [THEN spec, of j] have "fvg_age (fs0 ! j) = fvg_age (fs ! j) + 1 \<and>
           (fvg_age (fs ! j) + 1 > L \<longrightarrow>
              fvg_filled (fs0 ! j) \<and> (\<forall>d. r0 = Some d \<longrightarrow> delivery_fvg d \<noteq> fs0 ! j))"
          by blast
        then show ?thesis using Suc fs' r by simp
      qed
    qed
    have c5: "\<forall>i<length (f # fs). Suc k < i \<longrightarrow> fs' ! i = (f # fs) ! i"
    proof (intro allI impI)
      fix i assume "i < length (f # fs)" "Suc k < i"
      then obtain j where "i = Suc j" "j < length fs" "k < j" by (cases i) simp_all
      with ku fs' show "fs' ! i = (f # fs) ! i" by simp
    qed
    have "\<exists>k\<le>length (f # fs).
       (r = None \<longrightarrow> k = length (f # fs)) \<and>
       (\<forall>d. r = Some d \<longrightarrow> k < length (f # fs) \<and> delivery_fvg d = fs' ! k) \<and>
       (\<forall>i<length (f # fs). i \<le> k \<and> \<not> fvg_filled ((f # fs) ! i) \<longrightarrow>
           fvg_age (fs' ! i) = fvg_age ((f # fs) ! i) + 1 \<and>
           (fvg_age ((f # fs) ! i) + 1 > L \<longrightarrow>
              fvg_filled (fs' ! i) \<and> (\<forall>d. r = Some d \<longrightarrow> delivery_fvg d \<noteq> fs' ! i))) \<and>
       (\<forall>i<length (f # fs). k < i \<longrightarrow> fs' ! i = (f # fs) ! i)"
      by (rule exI [of _ "Suc k"]) (intro conjI c1 c2 c3 c4 c5)
    with c0 show ?thesis by (rule conjI)
  qed
qed

text \<open>
  Three unfilled FVGs at \<open>max_age = 20\<close>: one of age 20, which expires; a bearish one the
  bar delivers into; and one behind it, which the call does not reach.
\<close>

lemma check_delivery_scenario:
  "check_delivery 20 [old_gap, delivering_gap, waiting_gap] reversal_bar
     = (Some \<lparr>delivery_fvg = delivering_gap\<lparr>fvg_age := 1\<rparr>, delivery_confirmed = True,
              delivery_time = 20, delivery_direction = ''SHORT''\<rparr>,
        [old_gap\<lparr>fvg_age := 21, fvg_filled := True\<rparr>, delivering_gap\<lparr>fvg_age := 1\<rparr>, waiting_gap])"
  by (simp add: fvg_step_def old_gap_def delivering_gap_def waiting_gap_def reversal_bar_def
      candle_def Let_def)

theorem check_delivery_aging_witness:
  "map fvg_age (snd (check_delivery 20 [old_gap, delivering_gap, waiting_gap] reversal_bar))
     = [21, 1, 0]
   \<and> map fvg_filled (snd (check_delivery 20 [old_gap, delivering_gap, waiting_gap] reversal_bar))
     = [True, False, False]
   \<and> (\<exists>k\<le>length [old_gap, delivering_gap, waiting_gap].
        \<forall>i<length [old_gap, delivering_gap, waiting_gap].
          i \<le> k \<and> \<not> fvg_filled ([old_gap, delivering_gap, waiting_gap] ! i) \<longrightarrow>
          fvg_age (snd (check_delivery 20 [old_gap, delivering_gap, waiting_gap] reversal_bar) ! i)
            = fvg_age ([old_gap, delivering_gap, waiting_gap] ! i) + 1)"
proof -
  have e: "check_delivery 20 [old_gap, delivering_gap, waiting_gap] reversal_bar
      = (fst (check_delivery 20 [old_gap, delivering_gap, waiting_gap] reversal_bar),
         snd (check_delivery 20 [old_gap, delivering_gap, waiting_gap] reversal_bar))"
    by (rule prod.collapse [symmetric])
  have "\<exists>k\<le>length [old_gap, delivering_gap, waiting_gap].
        \<forall>i<length [old_gap, delivering_gap, waiting_gap].
          i \<le> k \<and> \<not> fvg_filled ([old_gap, delivering_gap, waiting_gap] ! i) \<longrightarrow>
          fvg_age (snd (check_delivery 20 [old_gap, delivering_gap, waiting_gap] reversal_bar) ! i)
            = fvg_age ([old_gap, delivering_gap, waiting_gap] ! i) + 1"
    using check_delivery_aging [OF e] by blast
  moreover have "map fvg_age (snd (check_delivery 20 [old_gap, delivering_gap, waiting_gap] reversal_bar))
     = [21, 1, 0]"
    by (simp only: check_delivery_scenario) (simp add: waiting_gap_def)
  moreover have "map fvg_filled (snd (check_delivery 20 [old_gap, delivering_gap, waiting_gap] reversal_bar))
     = [True, False, False]"
    by (simp only: check_delivery_scenario) (simp add: waiting_gap_def delivering_gap_def)
  ultimately show ?thesis by (intro conjI)
qed

text \<open>
  Claim C5 as stated fails: the call returns at the first delivery, and an unfilled FVG
  behind the delivering one keeps its age.
\<close>

theorem check_delivery_early_return_counterexample:
  "\<not> fvg_filled waiting_gap
   \<and> fvg_age (snd (check_delivery 20 [delivering_gap, waiting_gap] reversal_bar) ! 1)
       = fvg_age waiting_gap
   \<and> fvg_age (snd (check_delivery 20 [delivering_gap, waiting_gap] reversal_bar) ! 1)
       \<noteq> fvg_age waiting_gap + 1"
  by (simp add: fvg_step_def delivering_gap_def waiting_gap_def reversal_bar_def candle_def Let_def)

section \<open>CISD: claim C6\<close>

lemma find_sweep_index_first:
  "i < length bars \<Longrightarrow> bar_time (bars ! i) = t \<Longrightarrow> \<forall>k<i. bar_time (bars ! k) \<noteq> t
     \<Longrightarrow> find_sweep_index bars t = Some i"
proof (induction bars arbitrary: i)
  case Nil
  then show ?case by simp
next
  case (Cons b bs)
  show ?case
  proof (cases i)
    case 0
    with Cons.prems show ?thesis by simp
  next
    case (Suc j)
    with Cons.prems have "bar_time b \<noteq> t" by auto
    moreover have "find_sweep_index bs t = Some j"
      using Cons.prems Suc by (intro Cons.IH) auto
    ultimately show ?thesis using Suc by simp
  qed
qed

lemma find_sweep_index_absent:
  "\<forall>b\<in>set bars. bar_time b \<noteq> t \<Longrightarrow> find_sweep_index bars t = None"
  by (induction bars) auto

lemma walk_back_split:
  assumes "sweep_index - 10 < j" "j < sweep_index"
  shows "walk_back_indices sweep_index
           = rev [Suc j ..< sweep_index] @ j # rev [Suc (sweep_index - 10) ..< j]"
proof -
  have "[Suc (sweep_index - 10) ..< j + (sweep_index - j)]
      = [Suc (sweep_index - 10) ..< j] @ [j ..< j + (sweep_index - j)]"
    using assms(1) by (intro upt_add_eq_append) simp
  then have "[Suc (sweep_index - 10) ..< sweep_index]
      = [Suc (sweep_index - 10) ..< j] @ [j ..< sweep_index]"
    using assms(2) by simp
  also have "[j ..< sweep_index] = j # [Suc j ..< sweep_index]"
    using assms by (simp add: upt_conv_Cons)
  finally show ?thesis by (simp add: walk_back_indices_def)
qed

lemma candle_series_run:
  assumes "sweep_index \<le> j + 10" "j < sweep_index" "\<not> same_dir (bars ! j)"
    and "\<forall>i. j < i \<and> i < sweep_index \<longrightarrow> same_dir (bars ! i)"
  shows "candle_series same_dir bars sweep_index = map (\<lambda>i. bars ! i) (rev [Suc j ..< sweep_index])"
proof -
  have all: "\<forall>x\<in>set (map (\<lambda>i. bars ! i) (rev [Suc j ..< sweep_index])). same_dir x"
    using assms(4) by auto
  show ?thesis
  proof (cases "sweep_index - 10 < j")
    case True
    have "candle_series same_dir bars sweep_index
        = takeWhile same_dir (map (\<lambda>i. bars ! i) (rev [Suc j ..< sweep_index])
            @ bars ! j # map (\<lambda>i. bars ! i) (rev [Suc (sweep_index - 10) ..< j]))"
      by (simp add: candle_series_def walk_back_split [OF True assms(2)])
    also have "\<dots> = takeWhile same_dir (map (\<lambda>i. bars ! i) (rev [Suc j ..< sweep_index]))"
      using assms(3) by (rule takeWhile_tail)
    also have "\<dots> = map (\<lambda>i. bars ! i) (rev [Suc j ..< sweep_index])"
      using all by (simp only: takeWhile_eq_all_conv)
    finally show ?thesis .
  next
    case False
    with assms(1) have "sweep_index - 10 = j" by simp
    then have "candle_series same_dir bars sweep_index
        = takeWhile same_dir (map (\<lambda>i. bars ! i) (rev [Suc j ..< sweep_index]))"
      by (simp add: candle_series_def walk_back_indices_def)
    also have "\<dots> = map (\<lambda>i. bars ! i) (rev [Suc j ..< sweep_index])"
      using all by (simp only: takeWhile_eq_all_conv)
    finally show ?thesis .
  qed
qed

lemma run_empty: "map (\<lambda>i. bars ! i) (rev [Suc j ..< si]) = [] \<longleftrightarrow> \<not> j + 1 < si"
  by auto

lemma run_last: "j + 1 < si \<Longrightarrow> last (map (\<lambda>i. (bars::bar list) ! i) (rev [Suc j ..< si])) = bars ! (j + 1)"
  by (simp add: last_map last_rev upt_conv_Cons)

lemma detect_cisd_short:
  assumes "10 \<le> length bars" "find_sweep_index bars (sweep_time sw) = Some si" "5 \<le> si"
    "si \<le> j + 10" "j < si" "\<not> up_close (bars ! j)"
    "\<forall>i. j < i \<and> i < si \<longrightarrow> up_close (bars ! i)"
  shows "detect_cisd bars sw ''SHORT'' =
     (if j + 1 < si \<and> bar_close (last bars) < bar_open (bars ! (j + 1))
      then Some \<lparr>cisd_level = bar_open (bars ! (j + 1)), cisd_direction = ''SHORT'',
                 cisd_first_candle = bars ! (j + 1), cisd_current_close = bar_close (last bars),
                 cisd_time = bar_time (last bars)\<rparr>
      else None)"
proof -
  have run: "candle_series up_close bars si = map (\<lambda>i. bars ! i) (rev [Suc j ..< si])"
    using assms(4-7) by (rule candle_series_run)
  show ?thesis
  proof (cases "j + 1 < si")
    case True
    then have ne: "candle_series up_close bars si \<noteq> []" by (simp only: run run_empty simp_thms)
    have lst: "last (candle_series up_close bars si) = bars ! (j + 1)"
      using True by (simp only: run run_last)
    show ?thesis using assms(1-3) True ne lst by (simp add: detect_cisd_def Let_def)
  next
    case False
    then have "candle_series up_close bars si = []" by (simp only: run run_empty simp_thms)
    then show ?thesis using assms(1-3) False by (simp add: detect_cisd_def Let_def)
  qed
qed

lemma detect_cisd_long:
  assumes "10 \<le> length bars" "find_sweep_index bars (sweep_time sw) = Some si" "5 \<le> si"
    "si \<le> j + 10" "j < si" "\<not> down_close (bars ! j)"
    "\<forall>i. j < i \<and> i < si \<longrightarrow> down_close (bars ! i)"
  shows "detect_cisd bars sw ''LONG'' =
     (if j + 1 < si \<and> bar_close (last bars) > bar_open (bars ! (j + 1))
      then Some \<lparr>cisd_level = bar_open (bars ! (j + 1)), cisd_direction = ''LONG'',
                 cisd_first_candle = bars ! (j + 1), cisd_current_close = bar_close (last bars),
                 cisd_time = bar_time (last bars)\<rparr>
      else None)"
proof -
  have run: "candle_series down_close bars si = map (\<lambda>i. bars ! i) (rev [Suc j ..< si])"
    using assms(4-7) by (rule candle_series_run)
  show ?thesis
  proof (cases "j + 1 < si")
    case True
    then have ne: "candle_series down_close bars si \<noteq> []" by (simp only: run run_empty simp_thms)
    have lst: "last (candle_series down_close bars si) = bars ! (j + 1)"
      using True by (simp only: run run_last)
    show ?thesis using assms(1-3) True ne lst by (simp add: detect_cisd_def Let_def)
  next
    case False
    then have "candle_series down_close bars si = []" by (simp only: run run_empty simp_thms)
    then show ?thesis using assms(1-3) False by (simp add: detect_cisd_def Let_def)
  qed
qed

lemma detect_cisd_none:
  "length bars < 10 \<or> (\<forall>b\<in>set bars. bar_time b \<noteq> sweep_time sw)
     \<or> (\<exists>si. si < 5 \<and> si < length bars \<and> bar_time (bars ! si) = sweep_time sw)
   \<Longrightarrow> detect_cisd bars sw d = None"
proof (elim disjE exE conjE)
  assume "length bars < 10"
  then show ?thesis by (simp add: detect_cisd_def)
next
  assume "\<forall>b\<in>set bars. bar_time b \<noteq> sweep_time sw"
  then have "find_sweep_index bars (sweep_time sw) = None" by (rule find_sweep_index_absent)
  then show ?thesis by (simp add: detect_cisd_def)
next
  fix si assume si: "si < 5" "si < length bars" "bar_time (bars ! si) = sweep_time sw"
  define m where "m = (LEAST k. k < length bars \<and> bar_time (bars ! k) = sweep_time sw)"
  have m: "m < length bars \<and> bar_time (bars ! m) = sweep_time sw"
    unfolding m_def by (rule LeastI [of _ si]) (use si in simp)
  have le: "m \<le> si" unfolding m_def by (rule Least_le) (use si in simp)
  have first: "\<forall>k<m. bar_time (bars ! k) \<noteq> sweep_time sw"
  proof (intro allI impI)
    fix k assume "k < m"
    then have "\<not> (k < length bars \<and> bar_time (bars ! k) = sweep_time sw)"
      unfolding m_def by (rule not_less_Least)
    with \<open>k < m\<close> m show "bar_time (bars ! k) \<noteq> sweep_time sw" by simp
  qed
  have "find_sweep_index bars (sweep_time sw) = Some m"
    using m first by (intro find_sweep_index_first) simp_all
  with le si(1) show ?thesis by (simp add: detect_cisd_def)
qed

text \<open>
  Claim C6, as amended.  \<open>detect_cisd\<close> returns none when the window has fewer than 10
  bars, when no bar carries the sweep's time, when the first bar that carries it lies in
  the first 5 bars, and when the direction is neither SHORT nor LONG.  Otherwise, with
  \<open>si\<close> the first index that carries the sweep's time: if the candles walking backward
  from \<open>si - 1\<close> are same-direction closes (up-close for SHORT, down-close for LONG) down to
  a candle \<open>j\<close> that is not, and \<open>j\<close> lies at most 10 bars before the sweep (so that the
  run has at most 9 bars), then a confirmation is returned exactly when that run is not
  empty and the latest bar's close breaks past the open of the run's oldest bar \<open>j + 1\<close> in
  the trade direction, and its \<open>cisd_level\<close> is that open.  (A run of same-direction
  closes that reaches further back, or down to bar 0 of the window, is left open here.)
\<close>

theorem detect_cisd_amended:
  "(length bars < 10 \<or> (\<forall>b\<in>set bars. bar_time b \<noteq> sweep_time sw)
      \<or> (\<exists>si. si < 5 \<and> si < length bars \<and> bar_time (bars ! si) = sweep_time sw)
      \<or> (d \<noteq> ''SHORT'' \<and> d \<noteq> ''LONG'')
    \<longrightarrow> detect_cisd bars sw d = None)
   \<and> (\<forall>si j. 10 \<le> length bars \<and> si < length bars \<and> bar_time (bars ! si) = sweep_time sw
        \<and> (\<forall>k<si. bar_time (bars ! k) \<noteq> sweep_time sw) \<and> 5 \<le> si \<and> j < si \<and> si \<le> j + 10
      \<longrightarrow>
        (\<not> up_close (bars ! j) \<and> (\<forall>i. j < i \<and> i < si \<longrightarrow> up_close (bars ! i))
         \<longrightarrow> detect_cisd bars sw ''SHORT'' =
              (if j + 1 < si \<and> bar_close (last bars) < bar_open (bars ! (j + 1))
               then Some \<lparr>cisd_level = bar_open (bars ! (j + 1)), cisd_direction = ''SHORT'',
                          cisd_first_candle = bars ! (j + 1),
                          cisd_current_close = bar_close (last bars),
                          cisd_time = bar_time (last bars)\<rparr>
               else None))
      \<and> (\<not> down_close (bars ! j) \<and> (\<forall>i. j < i \<and> i < si \<longrightarrow> down_close (bars ! i))
         \<longrightarrow> detect_cisd bars sw ''LONG'' =
              (if j + 1 < si \<and> bar_close (last bars) > bar_open (bars ! (j + 1))
               then Some \<lparr>cisd_level = bar_open (bars ! (j + 1)), cisd_direction = ''LONG'',
                          cisd_first_candle = bars ! (j + 1),
                          cisd_current_close = bar_close (last bars),
                          cisd_time = bar_time (last bars)\<rparr>
               else None)))"
proof (intro conjI allI impI)
  assume "length bars < 10 \<or> (\<forall>b\<in>set bars. bar_time b \<noteq> sweep_time sw)
      \<or> (\<exists>si. si < 5 \<and> si < length bars \<and> bar_time (bars ! si) = sweep_time sw)
      \<or> (d \<noteq> ''SHORT'' \<and> d \<noteq> ''LONG'')"
  then consider "length bars < 10 \<or> (\<forall>b\<in>set bars. bar_time b \<noteq> sweep_time sw)
      \<or> (\<exists>si. si < 5 \<and> si < length bars \<and> bar_time (bars ! si) = sweep_time sw)"
    | "d \<noteq> ''SHORT'' \<and> d \<noteq> ''LONG''" by blast
  then show "detect_cisd bars sw d = None"
  proof cases
    case 1
    then show ?thesis by (rule detect_cisd_none)
  next
    case 2
    then show ?thesis by (simp add: detect_cisd_def split: option.splits)
  qed
next
  fix si j
  assume h: "10 \<le> length bars \<and> si < length bars \<and> bar_time (bars ! si) = sweep_time sw
        \<and> (\<forall>k<si. bar_time (bars ! k) \<noteq> sweep_time sw) \<and> 5 \<le> si \<and> j < si \<and> si \<le> j + 10"
    and r: "\<not> up_close (bars ! j) \<and> (\<forall>i. j < i \<and> i < si \<longrightarrow> up_close (bars ! i))"
  from h have f: "find_sweep_index bars (sweep_time sw) = Some si"
    by (intro find_sweep_index_first) simp_all
  from h r show "detect_cisd bars sw ''SHORT'' =
              (if j + 1 < si \<and> bar_close (last bars) < bar_open (bars ! (j + 1))
               then Some \<lparr>cisd_level = bar_open (bars ! (j + 1)), cisd_direction = ''SHORT'',
                          cisd_first_candle = bars ! (j + 1),
                          cisd_current_close = bar_close (last bars),
                          cisd_time = bar_time (last bars)\<rparr>
               else None)"
    by (intro detect_cisd_short f) simp_all
next
  fix si j
  assume h: "10 \<le> length bars \<and> si < length bars \<and> bar_time (bars ! si) = sweep_time sw
        \<and> (\<forall>k<si. bar_time (bars ! k) \<noteq> sweep_time sw) \<and> 5 \<le> si \<and> j < si \<and> si \<le> j + 10"
    and r: "\<not> down_close (bars ! j) \<and> (\<forall>i. j < i \<and> i < si \<longrightarrow> down_close (bars ! i))"
  from h have f: "find_sweep_index bars (sweep_time sw) = Some si"
    by (intro find_sweep_index_first) simp_all
  from h r show "detect_cisd bars sw ''LONG'' =
              (if j + 1 < si \<and> bar_close (last bars) > bar_open (bars ! (j + 1))
               then Some \<lparr>cisd_level = bar_open (bars ! (j + 1)), cisd_direction = ''LONG'',
                          cisd_first_candle = bars ! (j + 1),
                          cisd_current_close = bar_close (last bars),
                          cisd_time = bar_time (last bars)\<rparr>
               else None)"
    by (intro detect_cisd_long f) simp_all
qed

text \<open>
  Three windows.  The sweep at index 10, one up-close candle before it and a down-close
  candle before that: the level is the open (100) of the up-close candle.  The sweep at
  index 5 with four up-close candles before it, down to bar 0, a down-close: the level is
  the open (101) of bar 1.  The sweep at index 12 with nine up-close candles before it,
  down to bar 2, a down-close: the level is the open (103) of bar 3.
\<close>

theorem detect_cisd_amended_witness:
  "detect_cisd full_window full_window_sweep ''SHORT''
     = Some \<lparr>cisd_level = 100, cisd_direction = ''SHORT'', cisd_first_candle = full_window ! 9,
              cisd_current_close = 95, cisd_time = 11\<rparr>
   \<and> detect_cisd early_window early_sweep ''SHORT''
     = Some \<lparr>cisd_level = 101, cisd_direction = ''SHORT'', cisd_first_candle = early_window ! 1,
              cisd_current_close = 95, cisd_time = 11\<rparr>
   \<and> detect_cisd late_window late_sweep ''SHORT''
     = Some \<lparr>cisd_level = 103, cisd_direction = ''SHORT'', cisd_first_candle = late_window ! 3,
              cisd_current_close = 95, cisd_time = 13\<rparr>"
proof (intro conjI)
  have h: "10 \<le> length full_window \<and> 10 < length full_window
        \<and> bar_time (full_window ! 10) = sweep_time full_window_sweep
        \<and> (\<forall>k<10. bar_time (full_window ! k) \<noteq> sweep_time full_window_sweep)
        \<and> (5::nat) \<le> 10 \<and> (8::nat) < 10 \<and> (10::nat) \<le> 8 + 10"
    by (simp add: full_window_def full_window_sweep_def candle_def nth_Cons' less_Suc_eq
        numeral_eq_Suc)
  have r: "\<not> up_close (full_window ! 8)
        \<and> (\<forall>i. 8 < i \<and> i < 10 \<longrightarrow> up_close (full_window ! i))"
  proof (intro conjI allI impI)
    show "\<not> up_close (full_window ! 8)"
      by (simp add: full_window_def candle_def up_close_def)
    fix i :: nat assume "8 < i \<and> i < 10"
    then have "i = 9" by simp
    then show "up_close (full_window ! i)"
      by (simp add: full_window_def candle_def up_close_def)
  qed
  have "detect_cisd full_window full_window_sweep ''SHORT'' =
      (if 8 + 1 < (10::nat) \<and> bar_close (last full_window) < bar_open (full_window ! (8 + 1))
       then Some \<lparr>cisd_level = bar_open (full_window ! (8 + 1)), cisd_direction = ''SHORT'',
                  cisd_first_candle = full_window ! (8 + 1),
                  cisd_current_close = bar_close (last full_window),
                  cisd_time = bar_time (last full_window)\<rparr>
       else None)"
    using detect_cisd_amended [of full_window full_window_sweep, THEN conjunct2,
        THEN spec, THEN spec, THEN mp, OF h, THEN conjunct1, THEN mp, OF r] .
  then show "detect_cisd full_window full_window_sweep ''SHORT''
     = Some \<lparr>cisd_level = 100, cisd_direction = ''SHORT'', cisd_first_candle = full_window ! 9,
              cisd_current_close = 95, cisd_time = 11\<rparr>"
    by (simp add: full_window_def candle_def)
next
  have h: "10 \<le> length early_window \<and> 5 < length early_window
        \<and> bar_time (early_window ! 5) = sweep_time early_sweep
        \<and> (\<forall>k<5. bar_time (early_window ! k) \<noteq> sweep_time early_sweep)
        \<and> (5::nat) \<le> 5 \<and> (0::nat) < 5 \<and> (5::nat) \<le> 0 + 10"
    by (simp add: early_window_def early_sweep_def candle_def nth_Cons' less_Suc_eq
        numeral_eq_Suc)
  have r: "\<not> up_close (early_window ! 0)
        \<and> (\<forall>i. 0 < i \<and> i < 5 \<longrightarrow> up_close (early_window ! i))"
  proof (intro conjI allI impI)
    show "\<not> up_close (early_window ! 0)"
      by (simp add: early_window_def candle_def up_close_def)
    fix i :: nat assume "0 < i \<and> i < 5"
    then have "i = 1 \<or> i = 2 \<or> i = 3 \<or> i = 4" by auto
    then show "up_close (early_window ! i)"
      by (auto simp: early_window_def candle_def up_close_def)
  qed
  have "detect_cisd early_window early_sweep ''SHORT'' =
      (if 0 + 1 < (5::nat) \<and> bar_close (last early_window) < bar_open (early_window ! (0 + 1))
       then Some \<lparr>cisd_level = bar_open (early_window ! (0 + 1)), cisd_direction = ''SHORT'',
                  cisd_first_candle = early_window ! (0 + 1),
                  cisd_current_close = bar_close (last early_window),
                  cisd_time = bar_time (last early_window)\<rparr>
       else None)"
    using detect_cisd_amended [of early_window early_sweep, THEN conjunct2,
        THEN spec, THEN spec, THEN mp, OF h, THEN conjunct1, THEN mp, OF r] .
  then show "detect_cisd early_window early_sweep ''SHORT''
     = Some \<lparr>cisd_level = 101, cisd_direction = ''SHORT'', cisd_first_candle = early_window ! 1,
              cisd_current_close = 95, cisd_time = 11\<rparr>"
    by (simp add: early_window_def candle_def)
next
  have h: "10 \<le> length late_window \<and> 12 < length late_window
        \<and> bar_time (late_window ! 12) = sweep_time late_sweep
        \<and> (\<forall>k<12. bar_time (late_window ! k) \<noteq> sweep_time late_sweep)
        \<and> (5::nat) \<le> 12 \<and> (2::nat) < 12 \<and> (12::nat) \<le> 2 + 10"
    by (simp add: late_window_def late_sweep_def candle_def nth_Cons' less_Suc_eq
        numeral_eq_Suc)
  have r: "\<not> up_close (late_window ! 2)
        \<and> (\<forall>i. 2 < i \<and> i < 12 \<longrightarrow> up_close (late_window ! i))"
  proof (intro conjI allI impI)
    show "\<not> up_close (late_window ! 2)"
      by (simp add: late_window_def candle_def up_close_def)
    fix i :: nat assume "2 < i \<and> i < 12"
    then have "i = 3 \<or> i = 4 \<or> i = 5 \<or> i = 6 \<or> i = 7 \<or> i = 8 \<or> i = 9 \<or> i = 10 \<or> i = 11"
      by auto
    then show "up_close (late_window ! i)"
      by (auto simp: late_window_def candle_def up_close_def)
  qed
  have "detect_cisd late_window late_sweep ''SHORT'' =
      (if 2 + 1 < (12::nat) \<and> bar_close (last late_window) < bar_open (late_window ! (2 + 1))
       then Some \<lparr>cisd_level = bar_open (late_window ! (2 + 1)), cisd_direction = ''SHORT'',
                  cisd_first_candle = late_window ! (2 + 1),
                  cisd_current_close = bar_close (last late_window),
                  cisd_time = bar_time (last late_window)\<rparr>
       else None)"
    using detect_cisd_amended [of late_window late_sweep, THEN conjunct2,
        THEN spec, THEN spec, THEN mp, OF h, THEN conjunct1, THEN mp, OF r] .
  then show "detect_cisd late_window late_sweep ''SHORT''
     = Some \<lparr>cisd_level = 103, cisd_direction = ''SHORT'', cisd_first_candle = late_window ! 3,
              cisd_current_close = 95, cisd_time = 13\<rparr>"
    by (simp add: late_window_def candle_def)
qed

text \<open>
  Claim C6 as stated fails on a window of fewer than 10 bars: the sweep is found at
  index 5, an up-close candle precedes it and the latest close is below that candle's
  open, yet nothing is returned.
\<close>

theorem detect_cisd_short_window_counterexample:
  "find_sweep_index short_window (sweep_time window_sweep) = Some 5
   \<and> up_close (short_window ! 4) \<and> \<not> up_close (short_window ! 3)
   \<and> bar_close (last short_window) < bar_open (short_window ! 4)
   \<and> detect_cisd short_window window_sweep ''SHORT'' = None"
  by (simp add: short_window_def window_sweep_def candle_def up_close_def detect_cisd_def)

text \<open>
  The loop \<open>range(sweep_index - 1, max(0, sweep_index - 10), -1)\<close> visits at most 9 bars:
  with 11 up-close candles before the sweep at index 11, the level is the open of bar 2.
\<close>

lemma detect_cisd_nine_bars:
  "list_all up_close (take 11 rally_window)
   \<and> map_option cisd_level (detect_cisd rally_window rally_sweep ''SHORT'') = Some 102
   \<and> bar_open (rally_window ! 2) = 102 \<and> bar_open (rally_window ! 1) = 101"
  by (simp add: rally_window_def rally_sweep_def candle_def up_close_def detect_cisd_def
      candle_series_def walk_back_indices_def Let_def)

section \<open>Signal pipeline: claims C1, C2, C9 and C10\<close>

subsection \<open>What the stages leave untouched\<close>

lemma stage_sweep_static:
  "sg_filters_enabled (stage_sweep self ltf mt) = sg_filters_enabled self"
  "sg_volatility_filter (stage_sweep self ltf mt) = sg_volatility_filter self"
  "sg_config (stage_sweep self ltf mt) = sg_config self"
  by (simp_all add: stage_sweep_def split: prod.splits option.splits)

lemma stage_htf_fvg_static:
  "sg_filters_enabled (stage_htf_fvg self htf b mt d) = sg_filters_enabled self"
  "sg_volatility_filter (stage_htf_fvg self htf b mt d) = sg_volatility_filter self"
  "sg_config (stage_htf_fvg self htf b mt d) = sg_config self"
  by (simp_all add: stage_htf_fvg_def Let_def split: prod.splits option.splits)

lemma stage_ifvg_static:
  "sg_filters_enabled (stage_ifvg self ltf mt d) = sg_filters_enabled self"
  "sg_volatility_filter (stage_ifvg self ltf mt d) = sg_volatility_filter self"
  "sg_config (stage_ifvg self ltf mt d) = sg_config self"
  by (simp_all add: stage_ifvg_def split: option.splits)

lemma stage_cisd_static:
  "sg_filters_enabled (stage_cisd self ltf sw d) = sg_filters_enabled self"
  "sg_volatility_filter (stage_cisd self ltf sw d) = sg_volatility_filter self"
  "sg_config (stage_cisd self ltf sw d) = sg_config self"
  by (simp_all add: stage_cisd_def split: option.splits)

lemmas stage_static = stage_sweep_static stage_htf_fvg_static stage_ifvg_static stage_cisd_static

lemma run_confirmations_static:
  assumes "run_confirmations self ltf htf mt = Inr (s, sw, d)"
  shows "sg_filters_enabled s = sg_filters_enabled self"
    and "sg_volatility_filter s = sg_volatility_filter self"
    and "sg_config s = sg_config self"
  using assms
  by (auto simp: run_confirmations_def Let_def stage_static split: option.splits if_splits)

lemma build_signal_vf:
  "build_signal (self\<lparr>sg_volatility_filter := vf\<rparr>) sw b d mt = build_signal self sw b d mt"
  by (simp add: build_signal_def find_opposing_liquidity_def Let_def)

subsection \<open>The edge filters\<close>

lemma run_edge_filters_eq:
  "run_edge_filters self clk o1 o2 sw b d e ltf =
     (if \<not> fst (is_at_extreme d e ltf) then None
      else Some ((if fst (is_optimal_time clk (bar_time b))
                  then time_quality_multiplier clk (bar_time b) else 0.5),
                 (if fst (fst (is_favorable_volatility (sg_volatility_filter self) o1))
                  then fst (vol_quality_multiplier
                             (snd (is_favorable_volatility (sg_volatility_filter self) o1)) o2)
                  else 0.5),
                 structure_quality_score d e ltf,
                 score_sweep clk sw ltf,
                 snd (snd (fst (is_favorable_volatility (sg_volatility_filter self) o1)))),
      snd (vol_quality_multiplier (snd (is_favorable_volatility (sg_volatility_filter self) o1)) o2))"
  by (simp add: run_edge_filters_def Let_def split_beta)

lemma emit_signal_veto:
  assumes "sg_filters_enabled s" "\<not> fst (is_at_extreme d (bar_close (last ltf)) ltf)"
  shows "fst (emit_signal s clk o1 o2 sw d ltf mt) = None
    \<and> sg_confirmation_state (snd (emit_signal s clk o1 o2 sw d ltf mt)) = empty_confirmation_state"
  using assms
  by (simp add: emit_signal_def Let_def run_edge_filters_eq reset_confirmation_state_def)

lemma emit_signal_pass:
  assumes "sg_filters_enabled s" "fst (is_at_extreme d (bar_close (last ltf)) ltf)"
  shows "fst (emit_signal s clk o1 o2 sw d ltf mt)
           = Some ((build_signal s sw (last ltf) d mt)
               \<lparr>signal_filter_scores := Some
                 \<lparr>fs_time_score =
                    (if fst (is_optimal_time clk (bar_time (last ltf)))
                     then time_quality_multiplier clk (bar_time (last ltf)) else 0.5),
                  fs_volatility_score =
                    (if fst (fst (is_favorable_volatility (sg_volatility_filter s) o1))
                     then fst (vol_quality_multiplier
                                (snd (is_favorable_volatility (sg_volatility_filter s) o1)) o2)
                     else 0.5),
                  fs_structure_score = structure_quality_score d (bar_close (last ltf)) ltf,
                  fs_sweep_quality = score_sweep clk sw ltf,
                  fs_overall_score =
                    ((if fst (is_optimal_time clk (bar_time (last ltf)))
                      then time_quality_multiplier clk (bar_time (last ltf)) else 0.5)
                     + (if fst (fst (is_favorable_volatility (sg_volatility_filter s) o1))
                        then fst (vol_quality_multiplier
                                   (snd (is_favorable_volatility (sg_volatility_filter s) o1)) o2)
                        else 0.5)
                     + structure_quality_score d (bar_close (last ltf)) ltf) / 3,
                  fs_vix = snd (snd (fst (is_favorable_volatility (sg_volatility_filter s) o1))),
                  fs_filters_enabled = True\<rparr>\<rparr>)
    \<and> sg_confirmation_state (snd (emit_signal s clk o1 o2 sw d ltf mt)) = empty_confirmation_state"
  using assms
  by (simp add: emit_signal_def Let_def run_edge_filters_eq reset_confirmation_state_def
      build_signal_vf)

lemma emit_signal_plain:
  assumes "\<not> sg_filters_enabled s"
  shows "emit_signal s clk o1 o2 sw d ltf mt = emit_signal s clk' o1' o2' sw d ltf mt"
  using assms by (simp add: emit_signal_def Let_def)

lemma time_score_levels:
  "fst (is_optimal_time clk t) \<Longrightarrow> time_quality_multiplier clk t = 1 \<or> time_quality_multiplier clk t = 0.7"
  by (auto simp: time_quality_multiplier_def is_optimal_time_def split: time_reading.splits if_splits)

lemma check_for_signal_aligned:
  assumes "20 \<le> length ltf" "20 \<le> length htf" "run_confirmations self ltf htf mt = Inr (s, sw, d)"
  shows "check_for_signal self clk o1 o2 ltf htf mt = emit_signal s clk o1 o2 sw d ltf mt"
  using assms by (simp add: check_for_signal_def)

text \<open>
  Claim C9.  With edge filters enabled and the four confirmations aligned on the latest bar,
  only the structure (range position) filter can veto.  When it fails, \<open>check_for_signal\<close>
  returns nothing and resets the confirmation state.  When it passes, the signal is built
  whatever the time, volatility and sweep-quality filters say: a failed time filter records
  the time score 0.5 (a passed one 1.0 or 0.7), a failed volatility filter records the
  volatility score 0.5, the sweep quality is recorded as scored and compared with no
  effect on the result, and the confirmation state is reset.
\<close>

theorem structure_filter_only_veto:
  assumes "sg_filters_enabled self" "20 \<le> length ltf" "20 \<le> length htf"
    and "run_confirmations self ltf htf mt = Inr (s, sw, d)"
  shows "(\<not> fst (is_at_extreme d (bar_close (last ltf)) ltf) \<longrightarrow>
            fst (check_for_signal self clk o1 o2 ltf htf mt) = None
          \<and> sg_confirmation_state (snd (check_for_signal self clk o1 o2 ltf htf mt))
              = empty_confirmation_state)
       \<and> (fst (is_at_extreme d (bar_close (last ltf)) ltf) \<longrightarrow>
            (\<exists>fs. fst (check_for_signal self clk o1 o2 ltf htf mt)
                    = Some ((build_signal s sw (last ltf) d mt)\<lparr>signal_filter_scores := Some fs\<rparr>)
                \<and> (\<not> fst (is_optimal_time clk (bar_time (last ltf))) \<longrightarrow> fs_time_score fs = 0.5)
                \<and> (fst (is_optimal_time clk (bar_time (last ltf)))
                      \<longrightarrow> fs_time_score fs = 1 \<or> fs_time_score fs = 0.7)
                \<and> (\<not> fst (fst (is_favorable_volatility (sg_volatility_filter self) o1))
                      \<longrightarrow> fs_volatility_score fs = 0.5)
                \<and> fs_sweep_quality fs = score_sweep clk sw ltf)
          \<and> sg_confirmation_state (snd (check_for_signal self clk o1 o2 ltf htf mt))
              = empty_confirmation_state)"
proof -
  have en: "sg_filters_enabled s" and vf: "sg_volatility_filter s = sg_volatility_filter self"
    using run_confirmations_static [OF assms(4)] assms(1) by simp_all
  have eq: "check_for_signal self clk o1 o2 ltf htf mt = emit_signal s clk o1 o2 sw d ltf mt"
    using assms(2-4) by (rule check_for_signal_aligned)
  show ?thesis
  proof (intro conjI impI)
    assume v: "\<not> fst (is_at_extreme d (bar_close (last ltf)) ltf)"
    from emit_signal_veto [OF en v]
    show "fst (check_for_signal self clk o1 o2 ltf htf mt) = None"
      and "sg_confirmation_state (snd (check_for_signal self clk o1 o2 ltf htf mt))
              = empty_confirmation_state"
      by (simp_all only: eq)
  next
    assume p: "fst (is_at_extreme d (bar_close (last ltf)) ltf)"
    note pass = emit_signal_pass [OF en p, of clk o1 o2 sw mt]
    from pass show "sg_confirmation_state (snd (check_for_signal self clk o1 o2 ltf htf mt))
              = empty_confirmation_state"
      by (simp only: eq)
    define ts where "ts = (if fst (is_optimal_time clk (bar_time (last ltf)))
                     then time_quality_multiplier clk (bar_time (last ltf)) else 0.5)"
    define vs where "vs = (if fst (fst (is_favorable_volatility (sg_volatility_filter s) o1))
                     then fst (vol_quality_multiplier
                                (snd (is_favorable_volatility (sg_volatility_filter s) o1)) o2)
                     else 0.5)"
    define fs where "fs =
       \<lparr>fs_time_score = ts, fs_volatility_score = vs,
        fs_structure_score = structure_quality_score d (bar_close (last ltf)) ltf,
        fs_sweep_quality = score_sweep clk sw ltf,
        fs_overall_score = (ts + vs + structure_quality_score d (bar_close (last ltf)) ltf) / 3,
        fs_vix = snd (snd (fst (is_favorable_volatility (sg_volatility_filter s) o1))),
        fs_filters_enabled = True\<rparr>"
    have c1: "fst (check_for_signal self clk o1 o2 ltf htf mt)
                = Some ((build_signal s sw (last ltf) d mt)\<lparr>signal_filter_scores := Some fs\<rparr>)"
      using pass [THEN conjunct1] by (simp only: eq fs_def ts_def vs_def)
    have c2: "\<not> fst (is_optimal_time clk (bar_time (last ltf))) \<longrightarrow> fs_time_score fs = 0.5"
      by (simp add: fs_def ts_def)
    have c3: "fst (is_optimal_time clk (bar_time (last ltf)))
                \<longrightarrow> fs_time_score fs = 1 \<or> fs_time_score fs = 0.7"
      using time_score_levels [of clk "bar_time (last ltf)"] by (simp add: fs_def ts_def)
    have c4: "\<not> fst (fst (is_favorable_volatility (sg_volatility_filter self) o1))
                \<longrightarrow> fs_volatility_score fs = 0.5"
      by (simp add: fs_def vs_def vf)
    have c5: "fs_sweep_quality fs = score_sweep clk sw ltf"
      by (simp add: fs_def)
    show "\<exists>fs. fst (check_for_signal self clk o1 o2 ltf htf mt)
                    = Some ((build_signal s sw (last ltf) d mt)\<lparr>signal_filter_scores := Some fs\<rparr>)
                \<and> (\<not> fst (is_optimal_time clk (bar_time (last ltf))) \<longrightarrow> fs_time_score fs = 0.5)
                \<and> (fst (is_optimal_time clk (bar_time (last ltf)))
                      \<longrightarrow> fs_time_score fs = 1 \<or> fs_time_score fs = 0.7)
                \<and> (\<not> fst (fst (is_favorable_volatility (sg_volatility_filter self) o1))
                      \<longrightarrow> fs_volatility_score fs = 0.5)
                \<and> fs_sweep_quality fs = score_sweep clk sw ltf"
      by (intro exI [of _ fs] conjI c1 c2 c3 c4 c5)
  qed
qed

text \<open>
  Two scenarios with the default configuration.  On a trading day of 78 bars the pipeline
  aligns SHORT and the close sits in the upper part of the day's range: the signal is
  built although the VIX reading of 30 fails the volatility filter.  On a window of 22
  bars, in its second call, the pipeline aligns LONG; the structure filter has too few
  bars, fails, and the call returns nothing and resets the confirmation state.
\<close>

lemma day_aligned:
  "case run_confirmations (new_signal_generator default_config) ltf_day htf_gap 0.25 of
     Inl s \<Rightarrow> False
   | Inr (s, sw, d) \<Rightarrow> d = ''SHORT''"
  by code_simp

lemma day_at_extreme: "fst (is_at_extreme ''SHORT'' (bar_close (last ltf_day)) ltf_day)"
  by code_simp

lemma day_lengths: "20 \<le> length ltf_day" "20 \<le> length htf_gap" "20 \<le> length ltf_second"
  by code_simp+

lemma second_aligned:
  "case run_confirmations
          (snd (check_for_signal (new_signal_generator default_config) session_clock calm_obs
                 calm_obs ltf_first htf_gap 0.25))
          ltf_second htf_gap 0.25 of
     Inl s \<Rightarrow> False
   | Inr (s, sw, d) \<Rightarrow> d = ''LONG''"
  by code_simp

lemma second_enabled:
  "sg_filters_enabled
     (snd (check_for_signal (new_signal_generator default_config) session_clock calm_obs
            calm_obs ltf_first htf_gap 0.25))"
  by code_simp

lemma second_not_at_extreme:
  "\<not> fst (is_at_extreme ''LONG'' (bar_close (last ltf_second)) ltf_second)"
  by code_simp

theorem structure_filter_only_veto_witness:
  "(\<exists>sg fs. fst (check_for_signal (new_signal_generator default_config) session_clock
                  stormy_obs stormy_obs ltf_day htf_gap 0.25) = Some sg
       \<and> signal_filter_scores sg = Some fs
       \<and> fs_volatility_score fs = 0.5
       \<and> (fs_time_score fs = 1 \<or> fs_time_score fs = 0.7))
   \<and> fst (check_for_signal
            (snd (check_for_signal (new_signal_generator default_config) session_clock calm_obs
                   calm_obs ltf_first htf_gap 0.25))
            session_clock calm_obs calm_obs ltf_second htf_gap 0.25) = None
   \<and> sg_confirmation_state
        (snd (check_for_signal
               (snd (check_for_signal (new_signal_generator default_config) session_clock
                      calm_obs calm_obs ltf_first htf_gap 0.25))
               session_clock calm_obs calm_obs ltf_second htf_gap 0.25))
       = empty_confirmation_state"
proof (intro conjI)
  obtain s sw where rc:
    "run_confirmations (new_signal_generator default_config) ltf_day htf_gap 0.25
       = Inr (s, sw, ''SHORT'')"
    using day_aligned
    by (cases "run_confirmations (new_signal_generator default_config) ltf_day htf_gap 0.25")
      auto
  have en: "sg_filters_enabled (new_signal_generator default_config)"
    by (simp add: new_signal_generator_def default_config_def)
  have vol: "\<not> fst (fst (is_favorable_volatility
                 (sg_volatility_filter (new_signal_generator default_config)) stormy_obs))"
    by (simp add: new_signal_generator_def default_config_def new_volatility_filter_def
        is_favorable_volatility_def get_current_vix_def stormy_obs_def)
  have tm: "fst (is_optimal_time session_clock (bar_time (last ltf_day)))"
    by code_simp
  from structure_filter_only_veto [OF en day_lengths(1,2) rc,
      of session_clock stormy_obs stormy_obs,
      THEN conjunct2, THEN mp, OF day_at_extreme, THEN conjunct1]
  obtain fs where
    "fst (check_for_signal (new_signal_generator default_config) session_clock stormy_obs
           stormy_obs ltf_day htf_gap 0.25)
       = Some ((build_signal s sw (last ltf_day) ''SHORT'' 0.25)\<lparr>signal_filter_scores := Some fs\<rparr>)"
    and "fst (is_optimal_time session_clock (bar_time (last ltf_day)))
           \<longrightarrow> fs_time_score fs = 1 \<or> fs_time_score fs = 0.7"
    and "\<not> fst (fst (is_favorable_volatility
                 (sg_volatility_filter (new_signal_generator default_config)) stormy_obs))
           \<longrightarrow> fs_volatility_score fs = 0.5"
    by blast
  with vol tm
  show "\<exists>sg fs. fst (check_for_signal (new_signal_generator default_config) session_clock
                  stormy_obs stormy_obs ltf_day htf_gap 0.25) = Some sg
       \<and> signal_filter_scores sg = Some fs
       \<and> fs_volatility_score fs = 0.5
       \<and> (fs_time_score fs = 1 \<or> fs_time_score fs = 0.7)"
    by (intro exI [of _ "(build_signal s sw (last ltf_day) ''SHORT'' 0.25)
          \<lparr>signal_filter_scores := Some fs\<rparr>"] exI [of _ fs]) simp
next
  define g where "g = snd (check_for_signal (new_signal_generator default_config) session_clock
                             calm_obs calm_obs ltf_first htf_gap 0.25)"
  obtain s sw where rc: "run_confirmations g ltf_second htf_gap 0.25 = Inr (s, sw, ''LONG'')"
    using second_aligned unfolding g_def [symmetric]
    by (cases "run_confirmations g ltf_second htf_gap 0.25") auto
  have en: "sg_filters_enabled g" using second_enabled by (simp only: g_def)
  note veto = structure_filter_only_veto [OF en day_lengths(3,2) rc,
      of session_clock calm_obs calm_obs, THEN conjunct1, THEN mp, OF second_not_at_extreme]
  from veto [THEN conjunct1]
  show "fst (check_for_signal
            (snd (check_for_signal (new_signal_generator default_config) session_clock calm_obs
                   calm_obs ltf_first htf_gap 0.25))
            session_clock calm_obs calm_obs ltf_second htf_gap 0.25) = None"
    by (simp only: g_def)
  from veto [THEN conjunct2]
  show "sg_confirmation_state
        (snd (check_for_signal
               (snd (check_for_signal (new_signal_generator default_config) session_clock
                      calm_obs calm_obs ltf_first htf_gap 0.25))
               session_clock calm_obs calm_obs ltf_second htf_gap 0.25))
       = empty_confirmation_state"
    by (simp only: g_def)
qed

subsection \<open>Two runs over the same bars\<close>

text \<open>
  Claim C10, amended.  Two runs of \<open>check_for_signal\<close> from the same pipeline state over the
  same bars and \<open>min_tick\<close> return the same result when the edge filters are disabled.  With
  the filters enabled the two runs may fetch different VIX values; they still agree on
  whether a signal is returned, on every field of the signal other than the filter scores,
  on the time score, the structure score and the sweep quality, and on the confirmation
  state they leave behind.
\<close>

theorem check_for_signal_outside_world:
  "(\<not> sg_filters_enabled self \<longrightarrow>
       check_for_signal self clk o1 o2 ltf htf mt = check_for_signal self clk' o1' o2' ltf htf mt)
   \<and> (fst (check_for_signal self clk o1 o2 ltf htf mt) = None
        \<longleftrightarrow> fst (check_for_signal self clk o1' o2' ltf htf mt) = None)
   \<and> (\<forall>a b. fst (check_for_signal self clk o1 o2 ltf htf mt) = Some a
            \<and> fst (check_for_signal self clk o1' o2' ltf htf mt) = Some b
        \<longrightarrow> a\<lparr>signal_filter_scores := None\<rparr> = b\<lparr>signal_filter_scores := None\<rparr>
          \<and> map_option fs_time_score (signal_filter_scores a)
              = map_option fs_time_score (signal_filter_scores b)
          \<and> map_option fs_structure_score (signal_filter_scores a)
              = map_option fs_structure_score (signal_filter_scores b)
          \<and> map_option fs_sweep_quality (signal_filter_scores a)
              = map_option fs_sweep_quality (signal_filter_scores b))
   \<and> sg_confirmation_state (snd (check_for_signal self clk o1 o2 ltf htf mt))
       = sg_confirmation_state (snd (check_for_signal self clk o1' o2' ltf htf mt))"
proof (cases "length ltf < 20 \<or> length htf < 20")
  case True
  then show ?thesis by (simp add: check_for_signal_def)
next
  case long: False
  show ?thesis
  proof (cases "run_confirmations self ltf htf mt")
    case (Inl s)
    with long show ?thesis by (simp add: check_for_signal_def)
  next
    case (Inr x)
    then obtain s sw d where rc: "run_confirmations self ltf htf mt = Inr (s, sw, d)"
      by (cases x) auto
    from long have len: "20 \<le> length ltf" "20 \<le> length htf" by simp_all
    have eq: "\<And>c p q. check_for_signal self c p q ltf htf mt = emit_signal s c p q sw d ltf mt"
      using len rc by (rule check_for_signal_aligned)
    have en: "sg_filters_enabled s = sg_filters_enabled self"
      using run_confirmations_static [OF rc] by simp
    show ?thesis
    proof (cases "sg_filters_enabled s")
      case False
      have e1: "emit_signal s clk' o1' o2' sw d ltf mt = emit_signal s clk o1 o2 sw d ltf mt"
        and e2: "emit_signal s clk o1' o2' sw d ltf mt = emit_signal s clk o1 o2 sw d ltf mt"
        using False by (rule emit_signal_plain)+
      show ?thesis by (simp only: eq e1 e2) auto
    next
      case on: True
      show ?thesis
      proof (cases "fst (is_at_extreme d (bar_close (last ltf)) ltf)")
        case False
        from emit_signal_veto [OF on False] on en show ?thesis by (simp only: eq) simp
      next
        case True
        note pa = emit_signal_pass [OF on True, of clk o1 o2 sw mt]
        note pb = emit_signal_pass [OF on True, of clk o1' o2' sw mt]
        have a: "a\<lparr>signal_filter_scores := None\<rparr> = build_signal s sw (last ltf) d mt"
          "map_option fs_time_score (signal_filter_scores a)
              = Some (if fst (is_optimal_time clk (bar_time (last ltf)))
                      then time_quality_multiplier clk (bar_time (last ltf)) else 0.5)"
          "map_option fs_structure_score (signal_filter_scores a)
              = Some (structure_quality_score d (bar_close (last ltf)) ltf)"
          "map_option fs_sweep_quality (signal_filter_scores a) = Some (score_sweep clk sw ltf)"
          if "fst (check_for_signal self clk o1 o2 ltf htf mt) = Some a" for a o1 o2
          using that emit_signal_pass [OF on True, of clk o1 o2 sw mt, THEN conjunct1]
          by (auto simp: eq build_signal_def Let_def)
        show ?thesis
        proof (intro conjI allI impI)
          assume "\<not> sg_filters_enabled self"
          with on en show "check_for_signal self clk o1 o2 ltf htf mt
              = check_for_signal self clk' o1' o2' ltf htf mt" by simp
        next
          show "(fst (check_for_signal self clk o1 o2 ltf htf mt) = None)
              = (fst (check_for_signal self clk o1' o2' ltf htf mt) = None)"
            using pa pb by (simp only: eq) simp
        next
          show "sg_confirmation_state (snd (check_for_signal self clk o1 o2 ltf htf mt))
              = sg_confirmation_state (snd (check_for_signal self clk o1' o2' ltf htf mt))"
            using pa pb by (simp only: eq)
        next
          fix x y
          assume h: "fst (check_for_signal self clk o1 o2 ltf htf mt) = Some x
              \<and> fst (check_for_signal self clk o1' o2' ltf htf mt) = Some y"
          then have hx: "fst (check_for_signal self clk o1 o2 ltf htf mt) = Some x"
            and hy: "fst (check_for_signal self clk o1' o2' ltf htf mt) = Some y" by simp_all
          show "x\<lparr>signal_filter_scores := None\<rparr> = y\<lparr>signal_filter_scores := None\<rparr>"
            by (simp only: a(1) [OF hx] a(1) [OF hy])
          show "map_option fs_time_score (signal_filter_scores x)
              = map_option fs_time_score (signal_filter_scores y)"
            by (simp only: a(2) [OF hx] a(2) [OF hy])
          show "map_option fs_structure_score (signal_filter_scores x)
              = map_option fs_structure_score (signal_filter_scores y)"
            by (simp only: a(3) [OF hx] a(3) [OF hy])
          show "map_option fs_sweep_quality (signal_filter_scores x)
              = map_option fs_sweep_quality (signal_filter_scores y)"
            by (simp only: a(4) [OF hx] a(4) [OF hy])
        qed
      qed
    qed
  qed
qed

theorem check_for_signal_outside_world_witness:
  "check_for_signal (new_signal_generator plain_config) session_clock calm_obs calm_obs
     ltf_second htf_gap 0.25
   = check_for_signal (new_signal_generator plain_config) blind_clock stormy_obs stormy_obs
     ltf_second htf_gap 0.25"
proof -
  have "\<not> sg_filters_enabled (new_signal_generator plain_config)"
    by (simp add: new_signal_generator_def plain_config_def default_config_def)
  with check_for_signal_outside_world [of "new_signal_generator plain_config" session_clock
      calm_obs calm_obs ltf_second htf_gap "0.25" blind_clock stormy_obs stormy_obs,
      THEN conjunct1]
  show ?thesis by (rule mp)
qed

text \<open>
  Claim C10 as stated fails: from a freshly built pipeline with the default configuration
  and over the same bars, the returned signal records the VIX value fetched during the
  call, 12 in one run and 30 in the other.
\<close>

theorem vix_dependence_counterexample:
  "map_option (\<lambda>sg. map_option fs_vix (signal_filter_scores sg))
      (fst (check_for_signal (new_signal_generator default_config) session_clock calm_obs calm_obs
             ltf_day htf_gap 0.25)) = Some (Some 12)
   \<and> map_option (\<lambda>sg. map_option fs_vix (signal_filter_scores sg))
      (fst (check_for_signal (new_signal_generator default_config) session_clock stormy_obs
             stormy_obs ltf_day htf_gap 0.25)) = Some (Some 30)"
  by code_simp

subsection \<open>A detection episode over two bars\<close>

text \<open>
  The first call, on 21 bars, records a buyside sweep (SHORT) at bar 20 and the delivery
  from a bearish higher-timeframe gap, and waits for the iFVG inversion.
\<close>

lemma swings_first:
  "identify_swings (new_sweep_detector 3 1) (butlast ltf_first) =
     \<lparr>min_swing_candles = 3, sweep_buffer_ticks = 1,
      swing_highs = [\<lparr>swing_index = 5, swing_time = 5, swing_price = 110,
                      swing_type = ''swing_high''\<rparr>],
      swing_lows = [\<lparr>swing_index = 10, swing_time = 10, swing_price = 90,
                     swing_type = ''swing_low''\<rparr>]\<rparr>"
  by code_simp

lemma first_call:
  "check_for_signal (new_signal_generator plain_config) session_clock calm_obs calm_obs
     ltf_first htf_gap 0.25 = (None, after_first_call)"
  by code_simp

text \<open>
  Claim C1 says that every confirmation carried by a returned signal has the signal's
  direction.  The second call of the episode runs the sweep stage again, replaces the
  recorded SHORT sweep by a sellside sweep (LONG) at bar 21, keeps the SHORT delivery and
  returns a LONG signal whose higher-timeframe confirmation is SHORT.
\<close>

theorem mixed_direction_signal:
  "fst (check_for_signal (new_signal_generator plain_config) session_clock calm_obs calm_obs
         ltf_first htf_gap 0.25) = None
   \<and> map_option signal_direction
        (fst (check_for_signal
               (snd (check_for_signal (new_signal_generator plain_config) session_clock calm_obs
                      calm_obs ltf_first htf_gap 0.25))
               session_clock calm_obs calm_obs ltf_second htf_gap 0.25))
       = Some ''LONG''
   \<and> map_option (\<lambda>sg. map_option delivery_direction (cs_htf_fvg (signal_confirmations sg)))
        (fst (check_for_signal
               (snd (check_for_signal (new_signal_generator plain_config) session_clock calm_obs
                      calm_obs ltf_first htf_gap 0.25))
               session_clock calm_obs calm_obs ltf_second htf_gap 0.25))
       = Some (Some ''SHORT'')"
  by code_simp

text \<open>
  Claim C2 says that a recorded confirmation, the sweep included, is never derived again
  or replaced within an episode.  After the first call the recorded sweep and the recorded
  delivery are both of bar 20; the second call of the same episode returns a signal whose
  sweep is of bar 21, while its delivery is still the one of bar 20.
\<close>

theorem sweep_stage_rederived:
  "map_option sweep_time
      (cs_sweep (sg_confirmation_state
         (snd (check_for_signal (new_signal_generator plain_config) session_clock calm_obs
                calm_obs ltf_first htf_gap 0.25))))
     = Some 20
   \<and> map_option delivery_time
      (cs_htf_fvg (sg_confirmation_state
         (snd (check_for_signal (new_signal_generator plain_config) session_clock calm_obs
                calm_obs ltf_first htf_gap 0.25))))
     = Some 20
   \<and> map_option (\<lambda>sg. (map_option sweep_time (cs_sweep (signal_confirmations sg)),
                       map_option delivery_time (cs_htf_fvg (signal_confirmations sg))))
        (fst (check_for_signal
               (snd (check_for_signal (new_signal_generator plain_config) session_clock calm_obs
                      calm_obs ltf_first htf_gap 0.25))
               session_clock calm_obs calm_obs ltf_second htf_gap 0.25))
       = Some (Some 21, Some 20)"
  by code_simp

end
